theory Spec2Isabelle
  imports Main "HOL-Library.Word"
begin

section \<open>bin2mif: data model\<close>

text \<open>
  The source holds two variants of the program; the development follows the later one
  (the one with \<^verbatim>\<open>getopt_long\<close> and \<^verbatim>\<open>file_size\<close>).
  \<^verbatim>\<open>typedef uint8_t byte;\<close>
\<close>

type_synonym byte = "8 word"

text \<open>
  What can go wrong below the level of C's return values: a division by zero traps, an
  access outside an array is undefined behaviour, a loop may never return.
\<close>

datatype fault = DivByZero | OutOfBounds | NoReturn

subsection \<open>The input descriptor\<close>

text \<open>
  \<^verbatim>\<open>read(fd, buf, count)\<close> may fail, and may deliver fewer bytes than asked for.
  A descriptor is the bytes not yet delivered and a schedule for the coming calls: each
  call takes the head of the schedule, and a call after the schedule has run out delivers
  everything it is asked for. A call returns no bytes when none are left.
\<close>

datatype read_ev = ReadFails | ReadUpTo nat

record instream =
  pending :: "byte list"
  sched :: "read_ev list"

definition sys_read :: "instream \<Rightarrow> nat \<Rightarrow> byte list option \<times> instream" where
  "sys_read f count =
     (case sched f of
        [] \<Rightarrow> (Some (take count (pending f)), f\<lparr>pending := drop count (pending f)\<rparr>)
      | ReadFails # evs \<Rightarrow> (None, f\<lparr>sched := evs\<rparr>)
      | ReadUpTo n # evs \<Rightarrow>
          (Some (take (min n count) (pending f)),
           f\<lparr>pending := drop (min n count) (pending f), sched := evs\<rparr>))"

subsection \<open>Memory\<close>

text \<open>
  An array is the list of its bytes. \<open>memcpy mem off src\<close> is the array after
  \<open>src\<close> has been written at offset \<open>off\<close>; every caller checks
  \<open>off + length src \<le> length mem\<close> first and faults otherwise.
\<close>

definition memcpy :: "byte list \<Rightarrow> nat \<Rightarrow> byte list \<Rightarrow> byte list" where
  "memcpy mem off src = take off mem @ src @ drop (off + length src) mem"

section \<open>read_aligned\<close>

text \<open>
  The memory \<^verbatim>\<open>read_aligned\<close> works on through its pointer arguments:
  the descriptor, the array behind \<^verbatim>\<open>dest\<close>, the array behind
  \<^verbatim>\<open>put_aside\<close> and the byte behind \<^verbatim>\<open>remainder_len\<close>. Its only caller
  passes the addresses of locals, so neither pointer is NULL.
\<close>

record reader =
  fd :: instream
  dest :: "byte list"
  put_aside :: "byte list"
  remainder_len :: byte

text \<open>
  \<^verbatim>\<open>
  size_t nbytes = nwords * word_size;
  if (put_aside != NULL && remainder_len != NULL && *remainder_len > 0)
  { memcpy(dest, put_aside, *remainder_len); dest += *remainder_len; }
  ssize_t bytes_read = read(fd, dest, nbytes - *remainder_len);
  if (bytes_read < 0) { return -1; }
  bytes_read += *remainder_len;
  ssize_t words_read = bytes_read / word_size;
  *remainder_len = bytes_read % word_size;
  memcpy(dest + nbytes - *remainder_len, put_aside, *remainder_len);
  return words_read;
  \<close>
  \<^verbatim>\<open>size_t\<close> arithmetic is modulo \<open>2 ^ 64\<close>. The last \<^verbatim>\<open>memcpy\<close> copies
  from \<^verbatim>\<open>put_aside\<close> into the array behind \<^verbatim>\<open>dest\<close>, at the offset
  counted from the advanced pointer; \<^verbatim>\<open>put_aside\<close> itself is never written.
  A \<^verbatim>\<open>memcpy\<close> of no bytes is taken as harmless wherever it points; one that
  reads or writes outside its array is the fault \<open>OutOfBounds\<close>.
\<close>

definition read_aligned :: "reader \<Rightarrow> nat \<Rightarrow> byte \<Rightarrow> fault + (int \<times> reader)" where
  "read_aligned s nwords word_size =
     (let ws = unat word_size;
          nbytes = (nwords * ws) mod 2 ^ 64;
          r = unat (remainder_len s)
      in if r > length (put_aside s) \<or> r > length (dest s) then Inl OutOfBounds
         else
           let d1 = memcpy (dest s) 0 (take r (put_aside s));
               count = (nbytes + 2 ^ 64 - r) mod 2 ^ 64
           in case sys_read (fd s) count of
                (None, f') \<Rightarrow> Inr (- 1, s\<lparr>fd := f', dest := d1\<rparr>)
              | (Some chunk, f') \<Rightarrow>
                  if r + length chunk > length (dest s) then Inl OutOfBounds
                  else if ws = 0 then Inl DivByZero
                  else
                    let d2 = memcpy d1 r chunk;
                        bytes_read = length chunk + r;
                        words_read = bytes_read div ws;
                        r' = bytes_read mod ws
                    in if r' = 0
                       then Inr (int words_read,
                                 s\<lparr>fd := f', dest := d2, remainder_len := 0\<rparr>)
                       else if r' > length (put_aside s) \<or> r' > r + nbytes
                               \<or> r + nbytes > length (dest s)
                       then Inl OutOfBounds
                       else Inr (int words_read,
                                 s\<lparr>fd := f',
                                   dest := memcpy d2 (r + nbytes - r') (take r' (put_aside s)),
                                   remainder_len := of_nat r'\<rparr>))"

section \<open>Formatting and output\<close>

text \<open>
  The output descriptor: what has been written so far, and how many more
  \<^verbatim>\<open>dprintf\<close> calls succeed (\<open>None\<close>: all of them). A failing call writes
  nothing and returns a negative value; a successful one returns the number of characters.
\<close>

record sink =
  written :: string
  budget :: "nat option"

definition dprintf :: "sink \<Rightarrow> string \<Rightarrow> int \<times> sink" where
  "dprintf out txt =
     (case budget out of
        None \<Rightarrow> (int (length txt), out\<lparr>written := written out @ txt\<rparr>)
      | Some b \<Rightarrow>
          if b = 0 then (- 1, out)
          else (int (length txt), out\<lparr>written := written out @ txt, budget := Some (b - 1)\<rparr>))"

text \<open>
  The conversions of \<^verbatim>\<open>printf\<close> that the program uses. \<open>hex_char\<close> is the
  character of a digit below 16, so also of a decimal digit.
\<close>

definition hex_char :: "nat \<Rightarrow> char" where
  "hex_char d = ''0123456789abcdef'' ! d"

fun hex_digits :: "nat \<Rightarrow> string" where
  "hex_digits n = (if n < 16 then [hex_char n] else hex_digits (n div 16) @ [hex_char (n mod 16)])"

declare hex_digits.simps [simp del]

fun dec_digits :: "nat \<Rightarrow> string" where
  "dec_digits n = (if n < 10 then [hex_char n] else dec_digits (n div 10) @ [hex_char (n mod 10)])"

declare dec_digits.simps [simp del]

definition pad0 :: "nat \<Rightarrow> string \<Rightarrow> string" where
  "pad0 w ds = replicate (w - length ds) (CHR ''0'') @ ds"

definition fmt_0llx :: "nat \<Rightarrow> int \<Rightarrow> string" where
  \<comment> \<open>\<^verbatim>\<open>%0*llx\<close>: the argument is read as \<^verbatim>\<open>unsigned long long\<close>\<close>
  "fmt_0llx w v = pad0 w (hex_digits (nat (v mod 2 ^ 64)))"

definition fmt_02x :: "byte \<Rightarrow> string" where
  \<comment> \<open>\<^verbatim>\<open>%02x\<close> of a byte\<close>
  "fmt_02x b = pad0 2 (hex_digits (unat b))"

definition fmt_lld :: "int \<Rightarrow> string" where
  \<comment> \<open>\<^verbatim>\<open>%lld\<close>, \<^verbatim>\<open>%ld\<close> and \<^verbatim>\<open>%d\<close>\<close>
  "fmt_lld i = (if i < 0 then CHR ''-'' # dec_digits (nat (- i)) else dec_digits (nat i))"

section \<open>num_len\<close>

text \<open>
  \<^verbatim>\<open>
  unsigned int len = 1;
  num /= base;
  while (num > 0) { num /= base; ++len; }
  return len;
  \<close>
  With \<open>base = 0\<close> the first division traps; with \<open>base = 1\<close> and \<open>num > 0\<close> the
  loop never ends, which is the value \<open>None\<close>.
\<close>

partial_function (option) num_len_loop :: "nat \<Rightarrow> nat \<Rightarrow> nat \<Rightarrow> nat option" where
  "num_len_loop num base len =
     (if num > 0 then num_len_loop (num div base) base (len + 1) else Some len)"

declare num_len_loop.simps [code]

definition num_len :: "nat \<Rightarrow> nat \<Rightarrow> (fault + nat) option" where
  "num_len num base =
     (if base = 0 then Some (Inl DivByZero)
      else map_option Inr (num_len_loop (num div base) base 1))"

section \<open>generate_mif_content\<close>

definition INPUT_BUFFER_SIZE :: nat where
  "INPUT_BUFFER_SIZE = 128"

text \<open>
  The locals of \<^verbatim>\<open>generate_mif_content\<close> that change in its loop:
  \<open>rdr\<close> holds \<^verbatim>\<open>in_fd\<close>, \<^verbatim>\<open>buffer\<close>, \<^verbatim>\<open>put_aside_buffer\<close> and
  \<^verbatim>\<open>remainder_len\<close>. \<open>warnings\<close> is what \<^verbatim>\<open>warn\<close> and \<^verbatim>\<open>warnx\<close>
  have printed (the message, without the text of \<^verbatim>\<open>errno\<close>).
\<close>

record emitter =
  rdr :: reader
  outp :: sink
  words_read :: int
  word_idx :: nat
  warnings :: "string list"

text \<open>
  One statement of the loop body either faults, or returns from the function with a
  value, or goes on.
\<close>

datatype 'a step = Fault fault | Return int 'a | Next 'a

definition then_step :: "'a step \<Rightarrow> ('a \<Rightarrow> 'a step) \<Rightarrow> 'a step" where
  "then_step r f = (case r of Fault x \<Rightarrow> Fault x | Return n e \<Rightarrow> Return n e | Next e \<Rightarrow> f e)"

definition warn :: "string \<Rightarrow> emitter \<Rightarrow> emitter" where
  "warn msg e = e\<lparr>warnings := warnings e @ [msg]\<rparr>"

text \<open>
  \<^verbatim>\<open>
  if (words_read == 0)
  {
      word_idx = 0;
      words_read = read_aligned(in_fd, buffer, INPUT_BUFFER_SIZE, word_size,
                                put_aside_buffer, &remainder_len);
      if (words_read < 0) { warn("reading binary words from file"); return addr; }
  }
  \<close>
\<close>

definition refill :: "byte \<Rightarrow> int \<Rightarrow> emitter \<Rightarrow> emitter step" where
  "refill word_size addr e =
     (if words_read e = 0 then
        (case read_aligned (rdr e) INPUT_BUFFER_SIZE word_size of
           Inl f \<Rightarrow> Fault f
         | Inr (n, r') \<Rightarrow>
             (let e' = e\<lparr>rdr := r', words_read := n, word_idx := 0\<rparr>
              in if n < 0 then Return addr (warn ''reading binary words from file'' e')
                 else Next e'))
      else Next e)"

text \<open>
  \<^verbatim>\<open>
  if (words_read == 0 && remainder_len == 0) { warnx("unexpected EOF"); return addr; }
  \<close>
\<close>

definition eof_check :: "int \<Rightarrow> emitter \<Rightarrow> emitter step" where
  "eof_check addr e =
     (if words_read e = 0 \<and> remainder_len (rdr e) = 0
      then Return addr (warn ''unexpected EOF'' e)
      else Next e)"

text \<open>
  \<^verbatim>\<open>
  if (dprintf(out_fd, "%0*llx : ", addr_repr_width, addr) < 0)
  { warn("writing record to output"); return addr; }
  \<close>
\<close>

definition emit_address :: "nat \<Rightarrow> int \<Rightarrow> emitter \<Rightarrow> emitter step" where
  "emit_address addr_repr_width addr e =
     (case dprintf (outp e) (fmt_0llx addr_repr_width addr @ '' : '') of
        (n, out') \<Rightarrow>
          if n < 0 then Return addr (warn ''writing record to output'' (e\<lparr>outp := out'\<rparr>))
          else Next (e\<lparr>outp := out'\<rparr>))"

text \<open>
  \<^verbatim>\<open>
  for (short byte_idx = word_size - 1; byte_idx >= 0; --byte_idx)
  {
      if (dprintf(out_fd, byte_idx == 0 ? "%02x;\n" : "%02x", buffer[word_idx][byte_idx]) < 0)
      { warn("writing record to output"); return addr; }
  }
  \<close>
  The third argument is \<open>byte_idx + 1\<close>. \<^verbatim>\<open>buffer\<close> is
  \<^verbatim>\<open>byte buffer[INPUT_BUFFER_SIZE][word_size]\<close>, so \<^verbatim>\<open>buffer[word_idx][byte_idx]\<close>
  is the byte at \<open>word_idx * word_size + byte_idx\<close>.
\<close>

fun emit_bytes :: "int \<Rightarrow> nat \<Rightarrow> nat \<Rightarrow> emitter \<Rightarrow> emitter step" where
  "emit_bytes addr ws 0 e = Next e"
| "emit_bytes addr ws (Suc byte_idx) e =
     (let i = word_idx e * ws + byte_idx
      in if length (dest (rdr e)) \<le> i then Fault OutOfBounds
         else
           case dprintf (outp e)
                  (fmt_02x (dest (rdr e) ! i) @ (if byte_idx = 0 then [CHR '';'', CHR 0x0A] else []))
           of (n, out') \<Rightarrow>
             if n < 0 then Return addr (warn ''writing record to output'' (e\<lparr>outp := out'\<rparr>))
             else emit_bytes addr ws byte_idx (e\<lparr>outp := out'\<rparr>))"

text \<open>The body of the loop, ending with \<^verbatim>\<open>++word_idx; --words_read;\<close>.\<close>

definition content_body :: "byte \<Rightarrow> nat \<Rightarrow> int \<Rightarrow> emitter \<Rightarrow> emitter step" where
  "content_body word_size addr_repr_width addr e =
     then_step (refill word_size addr e) (\<lambda>e.
     then_step (eof_check addr e) (\<lambda>e.
     then_step (emit_address addr_repr_width addr e) (\<lambda>e.
     then_step (emit_bytes addr (unat word_size) (unat word_size) e) (\<lambda>e.
       Next (e\<lparr>word_idx := word_idx e + 1, words_read := words_read e - 1\<rparr>)))))"

text \<open>\<^verbatim>\<open>for (long long addr = 0; addr < depth; ++addr) { ... } return depth;\<close>\<close>

function content_loop :: "int \<Rightarrow> byte \<Rightarrow> nat \<Rightarrow> int \<Rightarrow> emitter \<Rightarrow> fault + int \<times> emitter" where
  "content_loop depth word_size addr_repr_width addr e =
     (if addr < depth then
        (case content_body word_size addr_repr_width addr e of
           Fault f \<Rightarrow> Inl f
         | Return n e' \<Rightarrow> Inr (n, e')
         | Next e' \<Rightarrow> content_loop depth word_size addr_repr_width (addr + 1) e')
      else Inr (depth, e))"
  by pat_completeness auto
termination
  by (relation "measure (\<lambda>(depth, word_size, addr_repr_width, addr, e). nat (depth - addr))") auto

declare content_loop.simps [simp del]

text \<open>
  \<^verbatim>\<open>buffer\<close> and \<^verbatim>\<open>put_aside_buffer\<close> are variable-length arrays on the stack and
  are not initialised: their first contents are whatever the stack holds, given here as
  a function from the index to the byte found there.
\<close>

record uninit =
  buffer_init :: "nat \<Rightarrow> byte"
  put_aside_init :: "nat \<Rightarrow> byte"

text \<open>
  \<^verbatim>\<open>
  const byte word_size = width / 8;
  const unsigned int addr_repr_width = num_len(depth - 1, 16);
  byte buffer[INPUT_BUFFER_SIZE][word_size];
  ssize_t words_read = 0;
  byte put_aside_buffer[word_size];
  byte remainder_len = 0;
  size_t word_idx = 0;
  \<close>
  \<^verbatim>\<open>depth - 1\<close> is converted to \<^verbatim>\<open>unsigned long long\<close>.
\<close>

definition generate_mif_content ::
    "instream \<Rightarrow> sink \<Rightarrow> int \<Rightarrow> byte \<Rightarrow> uninit \<Rightarrow> fault + int \<times> emitter" where
  "generate_mif_content in_fd out depth width u =
     (let word_size = width div 8
      in case num_len (nat ((depth - 1) mod 2 ^ 64)) 16 of
           None \<Rightarrow> Inl NoReturn
         | Some (Inl f) \<Rightarrow> Inl f
         | Some (Inr addr_repr_width) \<Rightarrow>
             content_loop depth word_size addr_repr_width 0
               \<lparr>rdr = \<lparr>fd = in_fd,
                       dest = map (buffer_init u) [0 ..< INPUT_BUFFER_SIZE * unat word_size],
                       put_aside = map (put_aside_init u) [0 ..< unat word_size],
                       remainder_len = 0\<rparr>,
                outp = out, words_read = 0, word_idx = 0, warnings = []\<rparr>)"

section \<open>generate_mif\<close>

text \<open>
  \<^verbatim>\<open>fstat\<close> on the input descriptor fails, or reports something that is not a regular
  file, or reports a regular file and its size in bytes.
\<close>

datatype fstat = StatFails | NotRegular | Regular nat

record infile =
  stream :: instream
  stat :: fstat

text \<open>
  \<^verbatim>\<open>
  if (fstat(fd, &file_stat) == -1) { return -1; }
  else if (!S_ISREG(file_stat.st_mode)) { return -2; }
  return file_stat.st_size;
  \<close>
\<close>

definition file_size :: "infile \<Rightarrow> int" where
  "file_size f = (case stat f of StatFails \<Rightarrow> - 1 | NotRegular \<Rightarrow> - 2 | Regular n \<Rightarrow> int n)"

definition header_text :: "int \<Rightarrow> byte \<Rightarrow> string" where
  "header_text depth width =
     ''DEPTH = '' @ fmt_lld depth @ '';\<newline>'' @
     ''WIDTH = '' @ fmt_lld (uint width) @ '';\<newline>'' @
     ''ADDRESS_RADIX = HEX;\<newline>'' @
     ''DATA_RADIX = HEX;\<newline>'' @
     ''CONTENT\<newline>'' @
     ''BEGIN\<newline>''"

definition generate_mif_header :: "sink \<Rightarrow> int \<Rightarrow> byte \<Rightarrow> bool \<times> sink" where
  "generate_mif_header out depth width =
     (case dprintf out (header_text depth width) of (n, out') \<Rightarrow> (n > 0, out'))"

text \<open>
  The block of \<^verbatim>\<open>generate_mif\<close> under its comment \<^verbatim>\<open>// Argument validation\<close>:
  it either returns from the function (\<open>Inl\<close>) or settles the depth (\<open>Inr\<close>), and
  may print a warning.
  \<^verbatim>\<open>
  const long long bytes_requested = depth * width / 8;
  off_t in_file_size = file_size(in_fd);
  if (in_file_size == -1) { warn("getting file size"); return -1; }
  if (in_file_size == -2 && depth < 0)        // reading from stdin; depth unknown
  { errno = EINVAL; warn("memory depth has to be given when reading from stdin"); return -1; }
  if (depth < 0) { depth = in_file_size; }    // desired depth equals the file size
  else if (in_file_size != -2 && in_file_size < bytes_requested)    // file is too short
  { warnx("%lld bytes were requested, but the input file only contains %ld", ...); }
  \<close>
  \<^verbatim>\<open>depth * width\<close> is a product of \<^verbatim>\<open>long long\<close>: it is taken modulo
  \<open>2 ^ 64\<close> into the signed range, as the compiled program does, and C's division
  rounds towards zero.
\<close>

definition wrap_ll :: "int \<Rightarrow> int" where
  "wrap_ll x = (x + 2 ^ 63) mod 2 ^ 64 - 2 ^ 63"

definition c_div :: "int \<Rightarrow> int \<Rightarrow> int" where
  \<comment> \<open>\<^verbatim>\<open>a / b\<close> for \<open>b > 0\<close>\<close>
  "c_div a b = (if a < 0 then - ((- a) div b) else a div b)"

definition argument_validation :: "int \<Rightarrow> int \<Rightarrow> byte \<Rightarrow> (int + int) \<times> string list" where
  "argument_validation in_file_size depth width =
     (let bytes_requested = c_div (wrap_ll (depth * uint width)) 8
      in if in_file_size = - 1 then (Inl (- 1), [''getting file size''])
         else if in_file_size = - 2 \<and> depth < 0
         then (Inl (- 1), [''memory depth has to be given when reading from stdin''])
         else if depth < 0 then (Inr in_file_size, [])
         else if in_file_size \<noteq> - 2 \<and> in_file_size < bytes_requested
         then (Inr depth,
               [fmt_lld bytes_requested @ '' bytes were requested, but the input file only contains ''
                  @ fmt_lld in_file_size])
         else (Inr depth, []))"

text \<open>What a run of \<^verbatim>\<open>generate_mif\<close> leaves behind.\<close>

record run =
  ret :: int
  in_after :: instream
  out_after :: sink
  stderr :: "string list"

text \<open>
  \<^verbatim>\<open>
  if (!generate_mif_header(out_fd, depth, width)) { return -1; }
  long long word_count = generate_mif_content(in_fd, out_fd, depth, width);
  if (word_count < 0) { return -1; }
  if (dprintf(out_fd, "END;\n") < 0) { warn("ending .mif file"); return -1; }
  return word_count;
  \<close>
\<close>

definition generate_mif :: "infile \<Rightarrow> sink \<Rightarrow> int \<Rightarrow> byte \<Rightarrow> uninit \<Rightarrow> fault + run" where
  "generate_mif in_fd out depth width u =
     (case argument_validation (file_size in_fd) depth width of
        (Inl r, msgs) \<Rightarrow>
          Inr \<lparr>ret = r, in_after = stream in_fd, out_after = out, stderr = msgs\<rparr>
      | (Inr depth', msgs) \<Rightarrow>
          (case generate_mif_header out depth' width of
             (False, out1) \<Rightarrow>
               Inr \<lparr>ret = - 1, in_after = stream in_fd, out_after = out1, stderr = msgs\<rparr>
           | (True, out1) \<Rightarrow>
               (case generate_mif_content (stream in_fd) out1 depth' width u of
                  Inl f \<Rightarrow> Inl f
                | Inr (word_count, e) \<Rightarrow>
                    if word_count < 0
                    then Inr \<lparr>ret = - 1, in_after = fd (rdr e), out_after = outp e,
                              stderr = msgs @ warnings e\<rparr>
                    else
                      (case dprintf (outp e) ''END;\<newline>'' of (n, out2) \<Rightarrow>
                         if n < 0
                         then Inr \<lparr>ret = - 1, in_after = fd (rdr e), out_after = out2,
                                   stderr = msgs @ warnings e @ [''ending .mif file'']\<rparr>
                         else Inr \<lparr>ret = word_count, in_after = fd (rdr e), out_after = out2,
                                   stderr = msgs @ warnings e\<rparr>))))"

section \<open>Utilities of main\<close>

abbreviation (input) BAD_NUMBER_FORMAT :: int where "BAD_NUMBER_FORMAT \<equiv> 1"
abbreviation (input) OVERFLOW_ERROR :: int where "OVERFLOW_ERROR \<equiv> 2"
abbreviation (input) INVALID_ARGUMENTS :: int where "INVALID_ARGUMENTS \<equiv> 3"
abbreviation (input) FILE_OPEN_FAILURE :: int where "FILE_OPEN_FAILURE \<equiv> 4"
abbreviation (input) FILE_CLOSE_FAILURE :: int where "FILE_CLOSE_FAILURE \<equiv> 5"
abbreviation (input) GENRATOR_FAILURE :: int where "GENRATOR_FAILURE \<equiv> 6"
abbreviation (input) GENERATOR_EARLY_STOP :: int where "GENERATOR_EARLY_STOP \<equiv> 7"
abbreviation (input) EXIT_SUCCESS :: int where "EXIT_SUCCESS \<equiv> 0"

text \<open>
  \<^verbatim>\<open>strtol(str, &end, 10)\<close> and \<^verbatim>\<open>strtoll\<close>, before the clamping to the range of
  the result type: white space, an optional sign, decimal digits. The result is the number
  read and the text left at \<^verbatim>\<open>end\<close>; with no digit to read, the number is 0 and
  \<^verbatim>\<open>end\<close> is the whole string.
\<close>

definition isspace :: "char \<Rightarrow> bool" where
  "isspace c = (c \<in> set [CHR '' '', CHR 0x09, CHR 0x0A, CHR 0x0B, CHR 0x0C, CHR 0x0D])"

definition isdigit :: "char \<Rightarrow> bool" where
  "isdigit c = (c \<in> set ''0123456789'')"

definition digits_value :: "string \<Rightarrow> int" where
  "digits_value ds = foldl (\<lambda>acc c. 10 * acc + (of_char c - 48)) 0 ds"

definition strtol :: "string \<Rightarrow> int \<times> string" where
  "strtol str =
     (let t = dropWhile isspace str;
          neg = (t \<noteq> [] \<and> hd t = CHR ''-'');
          t1 = (if t \<noteq> [] \<and> (hd t = CHR ''-'' \<or> hd t = CHR ''+'') then tl t else t);
          ds = takeWhile isdigit t1
      in if ds = [] then (0, str)
         else (if neg then - digits_value ds else digits_value ds, dropWhile isdigit t1))"

text \<open>
  \<^verbatim>\<open>
  long num = strtol(str, &end, 10);
  if (*end != '\0') { errx(BAD_NUMBER_FORMAT, ...); }
  if (num < 0 || num > UINT8_MAX) { errx(OVERFLOW_ERROR, ...); }
  return (byte) num;
  \<close>
  \<open>Inl\<close> is the status the process exits with.
\<close>

definition str_to_byte :: "string \<Rightarrow> int + byte" where
  "str_to_byte str =
     (case strtol str of (num, end) \<Rightarrow>
        if end \<noteq> [] then Inl BAD_NUMBER_FORMAT
        else if num < 0 \<or> num > 255 then Inl OVERFLOW_ERROR
        else Inr (of_int num))"

text \<open>
  \<^verbatim>\<open>
  long long num = strtoll(str, &end, 10);
  if (*end != '\0') { errx(BAD_NUMBER_FORMAT, ...); }
  if (errno == ERANGE) { err(OVERFLOW_ERROR, ...); }
  return num;
  \<close>
  \<^verbatim>\<open>strtoll\<close> sets \<^verbatim>\<open>ERANGE\<close> when the number is outside \<^verbatim>\<open>long long\<close>.
\<close>

definition str_to_ll :: "string \<Rightarrow> int + int" where
  "str_to_ll str =
     (case strtol str of (num, end) \<Rightarrow>
        if end \<noteq> [] then Inl BAD_NUMBER_FORMAT
        else if num < - (2 ^ 63) \<or> num > 2 ^ 63 - 1 then Inl OVERFLOW_ERROR
        else Inr num)"

text \<open>
  \<^verbatim>\<open>close\<close>: whether it succeeds on a descriptor, and the calls made so far.
\<close>

record os =
  close_ok :: "int \<Rightarrow> bool"
  close_calls :: "int list"

definition sys_close :: "os \<Rightarrow> int \<Rightarrow> bool \<times> os" where
  "sys_close w d = (close_ok w d, w\<lparr>close_calls := close_calls w @ [d]\<rparr>)"

text \<open>
  \<^verbatim>\<open>
  if (fd == NULL || *fd == -1) { return true; }
  bool retval = (close(*fd) == 0);
  *fd = -1;
  return retval;
  \<close>
  The pointer is \<open>None\<close> when it is NULL, and otherwise the integer it points to; the
  second component of the result is that integer after the call.
\<close>

definition safe_close :: "int option \<Rightarrow> os \<Rightarrow> bool \<times> int option \<times> os" where
  "safe_close p w =
     (case p of
        None \<Rightarrow> (True, None, w)
      | Some d \<Rightarrow>
          if d = - 1 then (True, Some d, w)
          else (case sys_close w d of (ok, w') \<Rightarrow> (ok, Some (- 1), w')))"

section \<open>main\<close>

text \<open>
  The command line as \<^verbatim>\<open>getopt_long\<close> hands it over: the options in the order
  found (an unknown option, or one lacking its argument, is \<^verbatim>\<open>'?'\<close>), and the
  arguments left from \<^verbatim>\<open>optind\<close> on. \<^verbatim>\<open>char\<close> is taken as signed, so the
  loop ends when \<^verbatim>\<open>getopt_long\<close> returns \<open>-1\<close>.
\<close>

datatype opt = OptWidth string | OptDepth string | OptOutput string | OptHelp | OptUnknown

record config =
  cfg_depth :: int
  cfg_width :: byte
  cfg_out_filename :: "string option"

text \<open>
  \<^verbatim>\<open>
  case 'w': width = str_to_byte(optarg); break;
  case 'd': depth = str_to_ll(optarg); break;
  case 'o': out_filename = optarg; break;
  case 'h': (void) dprintf(STDERR_FILENO, HELP_MESSAGE); return EXIT_SUCCESS;
  case '?': default: (void) dprintf(STDERR_FILENO, "\n%s", HELP_MESSAGE); return INVALID_ARGUMENTS;
  \<close>
  \<open>Inl\<close> is the status the process ends with.
\<close>

fun parse_options :: "opt list \<Rightarrow> config \<Rightarrow> int + config" where
  "parse_options [] c = Inr c"
| "parse_options (OptWidth optarg # rest) c =
     (case str_to_byte optarg of
        Inl status \<Rightarrow> Inl status
      | Inr w \<Rightarrow> parse_options rest (c\<lparr>cfg_width := w\<rparr>))"
| "parse_options (OptDepth optarg # rest) c =
     (case str_to_ll optarg of
        Inl status \<Rightarrow> Inl status
      | Inr d \<Rightarrow> parse_options rest (c\<lparr>cfg_depth := d\<rparr>))"
| "parse_options (OptOutput optarg # rest) c =
     parse_options rest (c\<lparr>cfg_out_filename := Some optarg\<rparr>)"
| "parse_options (OptHelp # rest) c = Inl EXIT_SUCCESS"
| "parse_options (OptUnknown # rest) c = Inl INVALID_ARGUMENTS"

text \<open>
  The world around the process: standard input and output, what \<^verbatim>\<open>open\<close> gives for
  a name (\<open>None\<close>: it fails), and \<^verbatim>\<open>close\<close>. Descriptors 0, 1 and 2 are open at
  the start and \<^verbatim>\<open>open\<close> returns the lowest free number, so the input file, when
  one is named, is descriptor 3, and the output file is the next one.
\<close>

record world =
  stdin :: infile
  stdout :: sink
  open_read :: "string \<Rightarrow> infile option"
  open_write :: "string \<Rightarrow> sink option"
  closing :: os

text \<open>
  How the process ended: its status, the output, what \<^verbatim>\<open>warn\<close> and
  \<^verbatim>\<open>warnx\<close> have printed, and the calls of \<^verbatim>\<open>close\<close>.
\<close>

record finish =
  status :: int
  final_out :: "sink option"
  messages :: "string list"
  closed :: "int list"

text \<open>
  \<^verbatim>\<open>
  if (words_written != depth)
  {
      (void) safe_close(&in_fd);
      (void) safe_close(&out_fd);
      if (words_written < 0) { exit(GENRATOR_FAILURE); }
  }
  int retval = 0;
  if (in_filename != NULL && !safe_close(&in_fd)) { retval = FILE_CLOSE_FAILURE; ... }
  if (out_filename != NULL && !safe_close(&out_fd)) { retval = FILE_CLOSE_FAILURE; ... }
  return retval;
  \<close>
  where the dots are \<^verbatim>\<open>warn("closing file %s", in_filename)\<close> and
  \<^verbatim>\<open>warn("closing file %s", out_filename)\<close>.
  \<^verbatim>\<open>in_filename\<close> starts as \<^verbatim>\<open>"-"\<close> and is never NULL. The result is the
  status, whether the warning for the input and the one for the output were printed, and
  the state of \<^verbatim>\<open>close\<close>.
\<close>

definition finish_up ::
    "int \<Rightarrow> int \<Rightarrow> int \<Rightarrow> int \<Rightarrow> bool \<Rightarrow> os \<Rightarrow> (int \<times> bool \<times> bool) \<times> os" where
  "finish_up words_written depth in_fd out_fd out_named w =
     (let (in_p, out_p, w1) =
            (if words_written \<noteq> depth
             then (case safe_close (Some in_fd) w of (_, p1, wa) \<Rightarrow>
                     case safe_close (Some out_fd) wa of (_, p2, wb) \<Rightarrow> (p1, p2, wb))
             else (Some in_fd, Some out_fd, w))
      in if words_written \<noteq> depth \<and> words_written < 0
         then ((GENRATOR_FAILURE, False, False), w1)
         else
           case safe_close in_p w1 of (ok_in, _, w2) \<Rightarrow>
             let retval = (if \<not> ok_in then FILE_CLOSE_FAILURE else 0)
             in if out_named
                then (case safe_close out_p w2 of (ok_out, _, w3) \<Rightarrow>
                        ((if \<not> ok_out then FILE_CLOSE_FAILURE else retval, \<not> ok_in, \<not> ok_out),
                         w3))
                else ((retval, \<not> ok_in, False), w2))"

text \<open>
  \<^verbatim>\<open>
  long long depth = -1;  byte width = 8;
  const char *in_filename = "-";  const char *out_filename = NULL;
  ... the options ...
  if (optind < argc && argc - optind == 1) { in_filename = argv[optind++]; }
  else if (optind < argc) { err(INVALID_ARGUMENTS, ...); }
  int in_fd = (strcmp(in_filename, "-") != 0 ? open(in_filename, O_RDONLY) : STDIN_FILENO);
  if (in_fd < 0) { err(FILE_OPEN_FAILURE, ...); }
  int out_fd = (out_filename != NULL ? open(out_filename, ...) : STDOUT_FILENO);
  if (out_fd < 0) { (void) safe_close(&in_fd); err(FILE_OPEN_FAILURE, ...); }
  long long words_written = generate_mif(in_fd, out_fd, depth, width);
  \<close>
\<close>

definition main :: "opt list \<Rightarrow> string list \<Rightarrow> world \<Rightarrow> uninit \<Rightarrow> fault + finish" where
  "main opts args w u =
     (case parse_options opts \<lparr>cfg_depth = - 1, cfg_width = 8, cfg_out_filename = None\<rparr> of
        Inl st \<Rightarrow> Inr \<lparr>status = st, final_out = None, messages = [], closed = []\<rparr>
      | Inr c \<Rightarrow>
          if length args > 1
          then Inr \<lparr>status = INVALID_ARGUMENTS, final_out = None, messages = [], closed = []\<rparr>
          else
            let in_filename = (if length args = 1 then hd args else ''-'')
            in case (if in_filename \<noteq> ''-''
                     then map_option (Pair 3) (open_read w in_filename)
                     else Some (0, stdin w)) of
                 None \<Rightarrow>
                   Inr \<lparr>status = FILE_OPEN_FAILURE, final_out = None, messages = [], closed = []\<rparr>
               | Some (in_fd, in_file) \<Rightarrow>
                   (case (case cfg_out_filename c of
                            Some name \<Rightarrow>
                              map_option (Pair (if in_fd = 3 then 4 else 3)) (open_write w name)
                          | None \<Rightarrow> Some (1, stdout w)) of
                      None \<Rightarrow>
                        (case safe_close (Some in_fd) (closing w) of (_, _, w1) \<Rightarrow>
                           Inr \<lparr>status = FILE_OPEN_FAILURE, final_out = None, messages = [],
                                closed = close_calls w1\<rparr>)
                    | Some (out_fd, out) \<Rightarrow>
                        (case generate_mif in_file out (cfg_depth c) (cfg_width c) u of
                           Inl f \<Rightarrow> Inl f
                         | Inr g \<Rightarrow>
                             (case finish_up (ret g) (cfg_depth c) in_fd out_fd
                                     (cfg_out_filename c \<noteq> None) (closing w) of
                                ((st, in_warned, out_warned), w1) \<Rightarrow>
                                  Inr \<lparr>status = st, final_out = Some (out_after g),
                                       messages = stderr g
                                         @ (if in_warned then [''closing file '' @ in_filename]
                                            else [])
                                         @ (if out_warned
                                            then [''closing file ''
                                                    @ (case cfg_out_filename c of
                                                         Some name \<Rightarrow> name | None \<Rightarrow> [])]
                                            else []),
                                       closed = close_calls w1\<rparr>))))"

text \<open>
  A world for the examples: the file \<^verbatim>\<open>in.bin\<close> is a regular file with the given
  bytes, read without short reads; no other file can be opened; standard input is a
  pipe with nothing to read; every write and every \<^verbatim>\<open>close\<close> succeeds.
\<close>

definition example_world :: "byte list \<Rightarrow> world" where
  "example_world bytes =
     \<lparr>stdin = \<lparr>stream = \<lparr>pending = [], sched = []\<rparr>, stat = NotRegular\<rparr>,
      stdout = \<lparr>written = [], budget = None\<rparr>,
      open_read = (\<lambda>name. if name = ''in.bin''
                     then Some \<lparr>stream = \<lparr>pending = bytes, sched = []\<rparr>,
                                stat = Regular (length bytes)\<rparr>
                     else None),
      open_write = (\<lambda>name. None),
      closing = \<lparr>close_ok = (\<lambda>d. True), close_calls = []\<rparr>\<rparr>"

section \<open>Properties\<close>

subsection \<open>read_aligned\<close>

lemma sys_read_length:
  "sys_read f count = (Some chunk, f') \<Longrightarrow> length chunk \<le> count"
  by (auto simp: sys_read_def split: list.splits read_ev.splits)

text \<open>
  C2. A call of \<open>read_aligned\<close> that returns a word count \<open>k\<close> (not the failure
  value \<open>-1\<close>) has read some chunk from the descriptor, and
  \<open>k * word_size + new carry length = old carry length + bytes read\<close>, with the new
  carry length below \<open>word_size\<close>. This holds for every word size and every buffer
  capacity, so for the word sizes 1, 2, 4, 8 and the capacities 1, 17, 128.
\<close>

theorem read_aligned_carry_correct:
  assumes "read_aligned s nwords word_size = Inr (k, s')" and "0 \<le> k"
  shows "\<exists>chunk f'.
           sys_read (fd s)
             (((nwords * unat word_size) mod 2 ^ 64 + 2 ^ 64 - unat (remainder_len s)) mod 2 ^ 64)
             = (Some chunk, f')
         \<and> nat k * unat word_size + unat (remainder_len s')
             = unat (remainder_len s) + length chunk
         \<and> unat (remainder_len s') < unat word_size
         \<and> 1 \<le> unat word_size"
  using assms
  by (auto simp: read_aligned_def Let_def uno_simps
           split: if_splits prod.splits option.splits)

theorem read_aligned_carry_correct_witness:
  "read_aligned \<lparr>fd = \<lparr>pending = [1, 2, 3, 4, 5], sched = [ReadUpTo 3]\<rparr>,
                 dest = replicate 34 0, put_aside = [0xAA, 0xBB], remainder_len = 0\<rparr> 17 2
     = Inr (1, \<lparr>fd = \<lparr>pending = [4, 5], sched = []\<rparr>,
                dest = [1, 2, 3] @ replicate 30 0 @ [0xAA], put_aside = [0xAA, 0xBB],
                remainder_len = 1\<rparr>)
   \<and> (0::int) \<le> 1
   \<and> sys_read \<lparr>pending = [1, 2, 3, 4, 5], sched = [ReadUpTo 3]\<rparr> 34
       = (Some [1, 2, 3], \<lparr>pending = [4, 5], sched = []\<rparr>)
   \<and> nat 1 * unat (2 :: byte) + unat (1 :: byte) = unat (0 :: byte) + length [1, 2, 3 :: byte]
   \<and> unat (1 :: byte) < unat (2 :: byte)"
  using read_aligned_carry_correct [of
      "\<lparr>fd = \<lparr>pending = [1, 2, 3, 4, 5], sched = [ReadUpTo 3]\<rparr>,
        dest = replicate 34 0, put_aside = [0xAA, 0xBB], remainder_len = 0\<rparr>" 17 2 1
      "\<lparr>fd = \<lparr>pending = [4, 5], sched = []\<rparr>,
        dest = [1, 2, 3] @ replicate 30 0 @ [0xAA], put_aside = [0xAA, 0xBB],
        remainder_len = 1\<rparr>"]
  by (simp add: read_aligned_def sys_read_def memcpy_def Let_def)

text \<open>
  C1. Two calls of \<open>read_aligned\<close> on the bytes \<open>1, 2, 3, 4\<close> with words of two
  bytes, where \<^verbatim>\<open>read\<close> delivers one byte and then three: the first call leaves a
  carry of one byte, but the byte itself is not copied to \<^verbatim>\<open>put_aside\<close>; the second
  call puts the old content of \<^verbatim>\<open>put_aside\<close> in front of what it reads. The words
  are \<open>0xAA 2\<close> and \<open>3 4\<close>: the byte \<open>1\<close> is lost. One read of the same
  four bytes gives \<open>1 2\<close> and \<open>3 4\<close>.
\<close>

theorem read_aligned_short_read_loses_byte:
  "read_aligned \<lparr>fd = \<lparr>pending = [1, 2, 3, 4], sched = [ReadUpTo 1, ReadUpTo 3]\<rparr>,
                 dest = [0, 0, 0, 0], put_aside = [0xAA, 0xBB], remainder_len = 0\<rparr> 2 2
     = Inr (0, \<lparr>fd = \<lparr>pending = [2, 3, 4], sched = [ReadUpTo 3]\<rparr>,
                dest = [1, 0, 0, 0xAA], put_aside = [0xAA, 0xBB], remainder_len = 1\<rparr>)
   \<and> read_aligned \<lparr>fd = \<lparr>pending = [2, 3, 4], sched = [ReadUpTo 3]\<rparr>,
                   dest = [1, 0, 0, 0xAA], put_aside = [0xAA, 0xBB], remainder_len = 1\<rparr> 2 2
     = Inr (2, \<lparr>fd = \<lparr>pending = [], sched = []\<rparr>,
                dest = [0xAA, 2, 3, 4], put_aside = [0xAA, 0xBB], remainder_len = 0\<rparr>)
   \<and> read_aligned \<lparr>fd = \<lparr>pending = [1, 2, 3, 4], sched = []\<rparr>,
                   dest = [0, 0, 0, 0], put_aside = [0xAA, 0xBB], remainder_len = 0\<rparr> 2 2
     = Inr (2, \<lparr>fd = \<lparr>pending = [], sched = []\<rparr>,
                dest = [1, 2, 3, 4], put_aside = [0xAA, 0xBB], remainder_len = 0\<rparr>)
   \<and> [0xAA, 2, 3, 4] \<noteq> [1, 2, 3, 4 :: byte]"
  by (simp add: read_aligned_def sys_read_def memcpy_def Let_def)

text \<open>
  \<open>read_aligned\<close> never changes the array \<^verbatim>\<open>put_aside\<close>: what it carries over
  to the next call is only the number of bytes.
\<close>

lemma read_aligned_keeps_put_aside:
  "read_aligned s nwords word_size = Inr (k, s') \<Longrightarrow> put_aside s' = put_aside s"
  by (auto simp: read_aligned_def Let_def split: if_splits prod.splits option.splits)

subsection \<open>Addresses and words in hexadecimal\<close>

lemma hex_digits_nonempty: "hex_digits n \<noteq> []"
  by (subst hex_digits.simps) simp

lemma hex_digits_length_mono: "a \<le> b \<Longrightarrow> length (hex_digits a) \<le> length (hex_digits b)"
proof (induction b arbitrary: a rule: hex_digits.induct)
  case (1 b)
  show ?case
  proof (cases "b < 16")
    case True
    with "1.prems" have "a < 16" by simp
    with True show ?thesis
      by (simp add: hex_digits.simps [of a] hex_digits.simps [of b])
  next
    case False
    show ?thesis
    proof (cases "a < 16")
      case True
      with False show ?thesis
        by (simp add: hex_digits.simps [of a] hex_digits.simps [of b])
    next
      case a16: False
      from "1.prems" have "a div 16 \<le> b div 16"
        by (rule div_le_mono)
      with False have "length (hex_digits (a div 16)) \<le> length (hex_digits (b div 16))"
        by (intro "1.IH") simp_all
      with False a16 show ?thesis
        by (simp add: hex_digits.simps [of a] hex_digits.simps [of b])
    qed
  qed
qed

lemma num_len_loop_hex:
  "num_len_loop (n div 16) 16 len = Some (len + length (hex_digits n) - 1)"
proof (induction n arbitrary: len rule: hex_digits.induct)
  case (1 n)
  show ?case
  proof (cases "n < 16")
    case True
    then show ?thesis
      by (simp add: num_len_loop.simps [of 0] hex_digits.simps [of n])
  next
    case False
    then have pos: "0 < n div 16" by simp
    have "num_len_loop (n div 16) 16 len = num_len_loop (n div 16 div 16) 16 (len + 1)"
      using pos by (subst num_len_loop.simps) simp
    also have "\<dots> = Some (len + 1 + length (hex_digits (n div 16)) - 1)"
      using False by (intro "1.IH") simp
    finally show ?thesis
      using False by (simp add: hex_digits.simps [of n])
  qed
qed

lemma num_len_16: "num_len n 16 = Some (Inr (length (hex_digits n)))"
  using hex_digits_nonempty [of n]
  by (simp add: num_len_def num_len_loop_hex)

lemma length_pad0: "length ds \<le> w \<Longrightarrow> length (pad0 w ds) = w"
  by (simp add: pad0_def)

lemma fmt_02x_two: "fmt_02x b = [hex_char (unat b div 16), hex_char (unat b mod 16)]"
proof -
  have "unat b < 256"
    using unsigned_less [of b] by simp
  then have "unat b div 16 < 16"
    by simp
  then show ?thesis
    by (simp add: fmt_02x_def pad0_def hex_char_def
          hex_digits.simps [of "unat b"] hex_digits.simps [of "unat b div 16"])
qed

lemma dprintf_ok:
  "\<forall>b. budget out = Some b \<longrightarrow> 0 < b \<Longrightarrow>
   dprintf out txt =
     (int (length txt),
      out\<lparr>written := written out @ txt, budget := map_option (\<lambda>b. b - 1) (budget out)\<rparr>)"
  by (cases "budget out") (auto simp: dprintf_def)

lemma emit_bytes_writes:
  assumes "word_idx e * ws + n \<le> length (dest (rdr e))"
    and "\<forall>b. budget (outp e) = Some b \<longrightarrow> n \<le> b"
  shows "emit_bytes addr ws n e =
           Next (e\<lparr>outp := (outp e)
                   \<lparr>written := written (outp e)
                       @ concat (map fmt_02x (rev (take n (drop (word_idx e * ws) (dest (rdr e))))))
                       @ (if n = 0 then [] else [CHR '';'', CHR 0x0A]),
                    budget := map_option (\<lambda>b. b - n) (budget (outp e))\<rparr>\<rparr>)"
  using assms
proof (induction n arbitrary: e)
  case 0
  then show ?case
    by (cases "budget (outp e)") simp_all
next
  case (Suc n)
  let ?base = "word_idx e * ws"
  let ?txt = "fmt_02x (dest (rdr e) ! (?base + n)) @ (if n = 0 then [CHR '';'', CHR 0x0A] else [])"
  let ?e1 = "e\<lparr>outp := (outp e)\<lparr>written := written (outp e) @ ?txt,
                                budget := map_option (\<lambda>b. b - 1) (budget (outp e))\<rparr>\<rparr>"
  have ok: "\<forall>b. budget (outp e) = Some b \<longrightarrow> 0 < b"
    using Suc.prems(2) by auto
  have step: "emit_bytes addr ws (Suc n) e = emit_bytes addr ws n ?e1"
    using Suc.prems(1) by (simp add: Let_def dprintf_ok [OF ok])
  have "emit_bytes addr ws n ?e1 =
          Next (?e1\<lparr>outp := (outp ?e1)
                   \<lparr>written := written (outp ?e1)
                       @ concat (map fmt_02x (rev (take n (drop (word_idx ?e1 * ws) (dest (rdr ?e1))))))
                       @ (if n = 0 then [] else [CHR '';'', CHR 0x0A]),
                    budget := map_option (\<lambda>b. b - n) (budget (outp ?e1))\<rparr>\<rparr>)"
  proof (rule Suc.IH)
    show "word_idx ?e1 * ws + n \<le> length (dest (rdr ?e1))"
      using Suc.prems(1) by simp
    show "\<forall>b. budget (outp ?e1) = Some b \<longrightarrow> n \<le> b"
      using Suc.prems(2) by auto
  qed
  moreover have "take (Suc n) (drop ?base (dest (rdr e)))
                   = take n (drop ?base (dest (rdr e))) @ [dest (rdr e) ! (?base + n)]"
    using Suc.prems(1) by (simp add: take_Suc_conv_app_nth)
  ultimately show ?case
    unfolding step
    by (cases "budget (outp e)") (simp_all add: option.map_comp comp_def)
qed

text \<open>
  C8. When the inner loop of \<open>generate_mif_content\<close> runs on a word of
  \<open>word_size \<ge> 1\<close> bytes that lies inside the buffer, and no write fails, it writes
  the bytes of the word from the last index down to the first, each as two lower-case
  hexadecimal digits, with nothing between them, and then \<^verbatim>\<open>";\n"\<close>. The bytes
  \<open>0x12, 0x34\<close> give \<^verbatim>\<open>3412\<close>.
\<close>

theorem word_field_format:
  assumes "1 \<le> ws"
    and "word_idx e * ws + ws \<le> length (dest (rdr e))"
    and "\<forall>b. budget (outp e) = Some b \<longrightarrow> ws \<le> b"
  shows "\<exists>e'. emit_bytes addr ws ws e = Next e'
           \<and> written (outp e') =
               written (outp e)
               @ concat (map fmt_02x (rev (take ws (drop (word_idx e * ws) (dest (rdr e))))))
               @ [CHR '';'', CHR 0x0A]
           \<and> (\<forall>b. fmt_02x b = [hex_char (unat b div 16), hex_char (unat b mod 16)])
           \<and> concat (map fmt_02x (rev [0x12, 0x34])) = ''3412''"
proof -
  have "concat (map fmt_02x (rev [0x12, 0x34])) = ''3412''"
    by (simp add: fmt_02x_two hex_char_def)
  with assms show ?thesis
    by (simp add: emit_bytes_writes fmt_02x_two)
qed

theorem word_field_format_witness:
  "(1::nat) \<le> 2
   \<and> (\<exists>e'. emit_bytes 0 2 2
              \<lparr>rdr = \<lparr>fd = \<lparr>pending = [], sched = []\<rparr>, dest = [0x12, 0x34],
                      put_aside = [0, 0], remainder_len = 0\<rparr>,
               outp = \<lparr>written = ''0 : '', budget = Some 2\<rparr>,
               words_read = 1, word_idx = 0, warnings = []\<rparr> = Next e'
          \<and> written (outp e') = ''0 : 3412;\<newline>'')"
  using word_field_format [of 2
              "\<lparr>rdr = \<lparr>fd = \<lparr>pending = [], sched = []\<rparr>, dest = [0x12, 0x34],
                      put_aside = [0, 0], remainder_len = 0\<rparr>,
               outp = \<lparr>written = ''0 : '', budget = Some 2\<rparr>,
               words_read = 1, word_idx = 0, warnings = []\<rparr>" 0]
  by (simp add: fmt_02x_two hex_char_def)

subsection \<open>Runs of generate_mif_content\<close>

lemma emit_bytes_numeral:
  "emit_bytes addr ws (numeral k) e = emit_bytes addr ws (Suc (pred_numeral k)) e"
  by (simp add: numeral_eq_Suc)

lemmas run_simps =
  generate_mif_content_def num_len_16 content_loop.simps content_body_def refill_def
  eof_check_def emit_address_def then_step_def warn_def read_aligned_def sys_read_def
  memcpy_def Let_def INPUT_BUFFER_SIZE_def dprintf_def fmt_0llx_def pad0_def
  hex_digits.simps hex_char_def emit_bytes_numeral nth_append

text \<open>
  The same loss seen from \<open>generate_mif_content\<close>: the third of four bytes, carried
  over after a read of three, is replaced in the second word by a byte of the stack.
\<close>

lemma short_read_emits_stack_byte:
  "\<exists>e'. generate_mif_content \<lparr>pending = [1, 2, 3, 4], sched = [ReadUpTo 3]\<rparr>
            \<lparr>written = [], budget = None\<rparr> 2 16 u = Inr (2, e')
        \<and> written (outp e') = ''0 : 0201;\<newline>1 : 04'' @ fmt_02x (put_aside_init u 0) @ '';\<newline>''"
  by (simp add: run_simps fmt_02x_two [of 1] fmt_02x_two [of 2] fmt_02x_two [of 4])

text \<open>
  C5. In the loop of \<open>generate_mif_content\<close>, at an address below the depth where the
  buffer is used up, when \<open>read_aligned\<close> returns no word and leaves no carry, the
  function returns that address, the number of records written so far, and writes nothing
  more. With an input of three bytes, depth 4 and width 8 it writes the records of the
  addresses 0, 1 and 2 and returns 3.
\<close>

theorem eof_stops_emission:
  "(addr < depth \<and> words_read e = 0
      \<and> read_aligned (rdr e) INPUT_BUFFER_SIZE word_size = Inr (0, r') \<and> remainder_len r' = 0
      \<longrightarrow> content_loop depth word_size addr_repr_width addr e
            = Inr (addr, warn ''unexpected EOF'' (e\<lparr>rdr := r', words_read := 0, word_idx := 0\<rparr>)))
   \<and> (\<exists>e'. generate_mif_content \<lparr>pending = [a, b, c], sched = []\<rparr>
               \<lparr>written = [], budget = None\<rparr> 4 8 u = Inr (3, e')
          \<and> written (outp e')
              = ''0 : '' @ fmt_02x a @ '';\<newline>1 : '' @ fmt_02x b @ '';\<newline>2 : '' @ fmt_02x c @ '';\<newline>'')"
proof
  show "addr < depth \<and> words_read e = 0
      \<and> read_aligned (rdr e) INPUT_BUFFER_SIZE word_size = Inr (0, r') \<and> remainder_len r' = 0
      \<longrightarrow> content_loop depth word_size addr_repr_width addr e
            = Inr (addr, warn ''unexpected EOF'' (e\<lparr>rdr := r', words_read := 0, word_idx := 0\<rparr>))"
    by (subst content_loop.simps)
       (simp add: content_body_def refill_def eof_check_def then_step_def)
  show "\<exists>e'. generate_mif_content \<lparr>pending = [a, b, c], sched = []\<rparr>
               \<lparr>written = [], budget = None\<rparr> 4 8 u = Inr (3, e')
          \<and> written (outp e')
              = ''0 : '' @ fmt_02x a @ '';\<newline>1 : '' @ fmt_02x b @ '';\<newline>2 : '' @ fmt_02x c @ '';\<newline>''"
    by (simp add: run_simps)
qed

theorem eof_stops_emission_witness:
  "(3::int) < 4
   \<and> read_aligned \<lparr>fd = \<lparr>pending = [], sched = []\<rparr>, dest = [0, 1, 2] @ replicate 125 0,
                   put_aside = [0], remainder_len = 0\<rparr> INPUT_BUFFER_SIZE 1
       = Inr (0, \<lparr>fd = \<lparr>pending = [], sched = []\<rparr>, dest = [0, 1, 2] @ replicate 125 0,
                  put_aside = [0], remainder_len = 0\<rparr>)
   \<and> content_loop 4 1 1 3
        \<lparr>rdr = \<lparr>fd = \<lparr>pending = [], sched = []\<rparr>, dest = [0, 1, 2] @ replicate 125 0,
                put_aside = [0], remainder_len = 0\<rparr>,
         outp = \<lparr>written = ''0 : 00;\<newline>1 : 01;\<newline>2 : 02;\<newline>'', budget = None\<rparr>,
         words_read = 0, word_idx = 3, warnings = []\<rparr>
       = Inr (3,
        \<lparr>rdr = \<lparr>fd = \<lparr>pending = [], sched = []\<rparr>, dest = [0, 1, 2] @ replicate 125 0,
                put_aside = [0], remainder_len = 0\<rparr>,
         outp = \<lparr>written = ''0 : 00;\<newline>1 : 01;\<newline>2 : 02;\<newline>'', budget = None\<rparr>,
         words_read = 0, word_idx = 0, warnings = [''unexpected EOF'']\<rparr>)"
  using eof_stops_emission [of 3 4
        "\<lparr>rdr = \<lparr>fd = \<lparr>pending = [], sched = []\<rparr>, dest = [0, 1, 2] @ replicate 125 0,
                put_aside = [0], remainder_len = 0\<rparr>,
         outp = \<lparr>written = ''0 : 00;\<newline>1 : 01;\<newline>2 : 02;\<newline>'', budget = None\<rparr>,
         words_read = 0, word_idx = 3, warnings = []\<rparr>" 1
        "\<lparr>fd = \<lparr>pending = [], sched = []\<rparr>, dest = [0, 1, 2] @ replicate 125 0,
                put_aside = [0], remainder_len = 0\<rparr>" 1]
  by (simp add: read_aligned_def sys_read_def memcpy_def Let_def INPUT_BUFFER_SIZE_def warn_def)

text \<open>
  C4. With depth 1 and width 8, when the first \<^verbatim>\<open>read\<close> fails,
  \<open>generate_mif_content\<close> returns 0, the address reached, which is not negative; on an
  empty input, a clean early stop, it returns 0 as well. Only the warning differs.
\<close>

theorem read_failure_returns_address:
  "(\<exists>e'. generate_mif_content \<lparr>pending = [0, 1, 2], sched = [ReadFails]\<rparr>
            \<lparr>written = [], budget = None\<rparr> 1 8 u = Inr (0, e')
        \<and> warnings e' = [''reading binary words from file''])
   \<and> (\<exists>e'. generate_mif_content \<lparr>pending = [], sched = []\<rparr>
            \<lparr>written = [], budget = None\<rparr> 1 8 u = Inr (0, e')
        \<and> warnings e' = [''unexpected EOF''])"
  by (simp add: run_simps)

text \<open>
  Every \<^verbatim>\<open>return\<close> inside the loop returns \<^verbatim>\<open>addr\<close>, so for a depth that is not
  negative the result of \<open>generate_mif_content\<close> is never negative: the test
  \<^verbatim>\<open>word_count < 0\<close> in \<open>generate_mif\<close> never holds.
\<close>

lemma emit_bytes_return: "emit_bytes addr ws n e = Return m e' \<Longrightarrow> m = addr"
  by (induction n arbitrary: e) (auto simp: Let_def split: prod.splits if_splits)

lemma then_step_Return:
  "then_step r f = Return m e' \<Longrightarrow> r = Return m e' \<or> (\<exists>e1. r = Next e1 \<and> f e1 = Return m e')"
  by (cases r) (simp_all add: then_step_def)

lemma refill_return: "refill word_size addr e = Return m e' \<Longrightarrow> m = addr"
  by (auto simp: refill_def Let_def split: if_splits sum.splits prod.splits)

lemma eof_check_return: "eof_check addr e = Return m e' \<Longrightarrow> m = addr"
  by (auto simp: eof_check_def split: if_splits)

lemma emit_address_return: "emit_address addr_repr_width addr e = Return m e' \<Longrightarrow> m = addr"
  by (auto simp: emit_address_def split: if_splits prod.splits)

lemma content_body_return:
  assumes "content_body word_size addr_repr_width addr e = Return m e'"
  shows "m = addr"
proof -
  from assms consider
      "refill word_size addr e = Return m e'"
    | e1 where "eof_check addr e1 = Return m e'"
    | e2 where "emit_address addr_repr_width addr e2 = Return m e'"
    | e3 where "emit_bytes addr (unat word_size) (unat word_size) e3 = Return m e'"
    unfolding content_body_def
    by (blast dest!: then_step_Return)
  then show ?thesis
    by cases (auto dest: refill_return eof_check_return emit_address_return emit_bytes_return)
qed


lemma content_loop_result_bounds:
  "addr \<le> depth \<Longrightarrow> content_loop depth word_size addr_repr_width addr e = Inr (m, e')
     \<Longrightarrow> addr \<le> m \<and> m \<le> depth"
proof (induction depth word_size addr_repr_width addr e rule: content_loop.induct)
  case (1 depth word_size addr_repr_width addr e)
  show ?case
  proof (cases "addr < depth")
    case False
    with "1.prems" show ?thesis
      by (subst (asm) content_loop.simps) simp
  next
    case True
    show ?thesis
    proof (cases "content_body word_size addr_repr_width addr e")
      case (Fault f)
      with True "1.prems"(2) show ?thesis
        by (subst (asm) content_loop.simps) simp
    next
      case (Return n e1)
      with True "1.prems"(2) have "m = n"
        by (subst (asm) content_loop.simps) simp
      with Return True show ?thesis
        by (auto dest: content_body_return)
    next
      case (Next e1)
      with True "1.prems"(2)
      have "content_loop depth word_size addr_repr_width (addr + 1) e1 = Inr (m, e')"
        by (subst (asm) content_loop.simps) simp
      with True Next have "addr + 1 \<le> m \<and> m \<le> depth"
        by (intro "1.IH") simp_all
      then show ?thesis
        by simp
    qed
  qed
qed

lemma generate_mif_content_never_negative:
  assumes "0 \<le> depth" and "generate_mif_content in_fd out depth width u = Inr (m, e')"
  shows "0 \<le> m \<and> m \<le> depth"
proof -
  from assms(2) obtain aw e0 where "content_loop depth (width div 8) aw 0 e0 = Inr (m, e')"
    by (simp add: generate_mif_content_def Let_def num_len_16)
  with assms(1) show ?thesis
    by (intro content_loop_result_bounds)
qed

subsection \<open>The address field of every record\<close>

text \<open>
  What one pass of the loop body writes when no write fails: nothing, if it returns; the
  address in \<open>addr_repr_width\<close> digits at least, \<^verbatim>\<open>" : "\<close>, two digits for each
  byte of a word and \<^verbatim>\<open>";\n"\<close>, if it goes on.
\<close>

lemma emit_bytes_text:
  "budget (outp e) = None \<Longrightarrow> emit_bytes addr ws n e = Next e' \<Longrightarrow>
   \<exists>bs. length bs = n
      \<and> e' = e\<lparr>outp := (outp e)\<lparr>written := written (outp e) @ concat (map fmt_02x bs)
                                           @ (if n = 0 then [] else [CHR '';'', CHR 0x0A])\<rparr>\<rparr>"
proof (induction n arbitrary: e)
  case 0
  then show ?case by simp
next
  case (Suc n)
  let ?i = "word_idx e * ws + n"
  let ?txt = "fmt_02x (dest (rdr e) ! ?i) @ (if n = 0 then [CHR '';'', CHR 0x0A] else [])"
  let ?e1 = "e\<lparr>outp := (outp e)\<lparr>written := written (outp e) @ ?txt\<rparr>\<rparr>"
  from Suc.prems have step: "emit_bytes addr ws n ?e1 = Next e'"
    by (simp add: Let_def dprintf_def split: if_splits)
  have "budget (outp ?e1) = None"
    using Suc.prems(1) by simp
  from Suc.IH [OF this step] obtain bs where bs: "length bs = n"
    and e': "e' = ?e1\<lparr>outp := (outp ?e1)\<lparr>written := written (outp ?e1) @ concat (map fmt_02x bs)
                                           @ (if n = 0 then [] else [CHR '';'', CHR 0x0A])\<rparr>\<rparr>"
    by blast
  show ?case
  proof (intro exI conjI)
    show "length (dest (rdr e) ! ?i # bs) = Suc n"
      using bs by simp
    show "e' = e\<lparr>outp := (outp e)\<lparr>written := written (outp e)
                 @ concat (map fmt_02x (dest (rdr e) ! ?i # bs))
                 @ (if Suc n = 0 then [] else [CHR '';'', CHR 0x0A])\<rparr>\<rparr>"
      using e' bs by (cases "n = 0") simp_all
  qed
qed

lemma emit_bytes_no_return:
  "budget (outp e) = None \<Longrightarrow> emit_bytes addr ws n e \<noteq> Return m e'"
  by (induction n arbitrary: e) (auto simp: Let_def dprintf_def split: if_splits)

lemma refill_outp:
  "refill word_size addr e = Next e1 \<Longrightarrow> outp e1 = outp e"
  "refill word_size addr e = Return n e1 \<Longrightarrow> n = addr \<and> outp e1 = outp e"
  by (auto simp: refill_def warn_def Let_def split: if_splits sum.splits prod.splits)

lemma eof_check_outp:
  "eof_check addr e = Next e1 \<Longrightarrow> e1 = e"
  "eof_check addr e = Return n e1 \<Longrightarrow> n = addr \<and> outp e1 = outp e"
  "eof_check addr e \<noteq> Fault f"
  by (auto simp: eof_check_def warn_def split: if_splits)

lemma emit_address_text:
  "budget (outp e) = None \<Longrightarrow>
   emit_address addr_repr_width addr e
     = Next (e\<lparr>outp := (outp e)\<lparr>written := written (outp e)
                                  @ fmt_0llx addr_repr_width addr @ '' : ''\<rparr>\<rparr>)"
  by (simp add: emit_address_def dprintf_def)

lemma content_body_text:
  assumes none: "budget (outp e) = None"
  shows "case content_body word_size addr_repr_width addr e of
           Fault f \<Rightarrow> True
         | Return n e' \<Rightarrow> n = addr \<and> outp e' = outp e
         | Next e' \<Rightarrow>
             (\<exists>bs. length bs = unat word_size
                \<and> outp e' = (outp e)\<lparr>written := written (outp e)
                     @ fmt_0llx addr_repr_width addr @ '' : '' @ concat (map fmt_02x bs)
                     @ (if unat word_size = 0 then [] else [CHR '';'', CHR 0x0A])\<rparr>)"
proof (cases "refill word_size addr e")
  case (Fault f)
  then show ?thesis by (simp add: content_body_def then_step_def)
next
  case (Return n e1)
  with refill_outp(2) [OF Return] show ?thesis
    by (simp add: content_body_def then_step_def)
next
  case r: (Next e1)
  then have o1: "outp e1 = outp e" by (rule refill_outp(1))
  show ?thesis
  proof (cases "eof_check addr e1")
    case (Fault f)
    then show ?thesis using eof_check_outp(3) by blast
  next
    case (Return n e2)
    with eof_check_outp(2) [OF Return] r o1 show ?thesis
      by (simp add: content_body_def then_step_def)
  next
    case c: (Next e2)
    then have e2: "e2 = e1" by (rule eof_check_outp(1))
    let ?e3 = "e1\<lparr>outp := (outp e1)\<lparr>written := written (outp e1)
                                  @ fmt_0llx addr_repr_width addr @ '' : ''\<rparr>\<rparr>"
    have a: "emit_address addr_repr_width addr e1 = Next ?e3"
      using none o1 by (intro emit_address_text) simp
    have b3: "budget (outp ?e3) = None"
      using none o1 by simp
    show ?thesis
    proof (cases "emit_bytes addr (unat word_size) (unat word_size) ?e3")
      case (Fault f)
      with r c e2 a show ?thesis
        by (simp add: content_body_def then_step_def)
    next
      case (Return n e4)
      with emit_bytes_no_return [OF b3] show ?thesis by blast
    next
      case (Next e4)
      from emit_bytes_text [OF b3 Next] obtain bs where len: "length bs = unat word_size"
        and e4: "e4 = ?e3\<lparr>outp := (outp ?e3)\<lparr>written := written (outp ?e3) @ concat (map fmt_02x bs)
                     @ (if unat word_size = 0 then [] else [CHR '';'', CHR 0x0A])\<rparr>\<rparr>"
        by blast
      have body: "content_body word_size addr_repr_width addr e
                    = Next (e4\<lparr>word_idx := word_idx e4 + 1, words_read := words_read e4 - 1\<rparr>)"
        unfolding content_body_def then_step_def r step.case c e2 a Next ..
      have "outp e4 = (outp e)\<lparr>written := written (outp e)
                     @ fmt_0llx addr_repr_width addr @ '' : '' @ concat (map fmt_02x bs)
                     @ (if unat word_size = 0 then [] else [CHR '';'', CHR 0x0A])\<rparr>"
        unfolding e4 o1 by simp
      with len show ?thesis
        unfolding body by auto
    qed
  qed
qed



lemma content_loop_text:
  assumes "budget (outp e) = None" and "1 \<le> unat word_size" and "0 \<le> addr" and "addr \<le> depth"
    and "content_loop depth word_size addr_repr_width addr e = Inr (m, e')"
  shows "addr \<le> m \<and> m \<le> depth
       \<and> (\<exists>words. length words = nat (m - addr)
             \<and> (\<forall>bs \<in> set words. length bs = unat word_size)
             \<and> outp e' = (outp e)\<lparr>written := written (outp e)
                  @ concat (map (\<lambda>(i, bs). fmt_0llx addr_repr_width (int i) @ '' : ''
                                   @ concat (map fmt_02x bs) @ [CHR '';'', CHR 0x0A])
                             (enumerate (nat addr) words))\<rparr>)"
  using assms
proof (induction depth word_size addr_repr_width addr e rule: content_loop.induct)
  case (1 depth word_size addr_repr_width addr e)
  note body = content_body_text [OF "1.prems"(1), where word_size = word_size
      and addr_repr_width = addr_repr_width and addr = addr]
  show ?case
  proof (cases "addr < depth")
    case False
    with "1.prems"(5) have "m = depth" "e' = e"
      by (subst (asm) content_loop.simps; simp)+
    with False "1.prems"(4) show ?thesis
      by (intro conjI exI [of _ "[]"]) simp_all
  next
    case True
    show ?thesis
    proof (cases "content_body word_size addr_repr_width addr e")
      case (Fault f)
      with True "1.prems"(5) show ?thesis
        by (subst (asm) content_loop.simps) simp
    next
      case (Return n e1)
      with True "1.prems"(5) have "m = n" "e' = e1"
        by (subst (asm) content_loop.simps; simp)+
      moreover from body Return have "n = addr" "outp e1 = outp e"
        by simp_all
      ultimately show ?thesis
        using True by (intro conjI exI [of _ "[]"]) simp_all
    next
      case (Next e1)
      with True "1.prems"(5)
      have run: "content_loop depth word_size addr_repr_width (addr + 1) e1 = Inr (m, e')"
        by (subst (asm) content_loop.simps) simp
      from body Next "1.prems"(2) obtain bs where len: "length bs = unat word_size"
        and o1: "outp e1 = (outp e)\<lparr>written := written (outp e)
                     @ fmt_0llx addr_repr_width addr @ '' : '' @ concat (map fmt_02x bs)
                     @ [CHR '';'', CHR 0x0A]\<rparr>"
        by auto
      have b1: "budget (outp e1) = None"
        using o1 "1.prems"(1) by simp
      have "addr + 1 \<le> m \<and> m \<le> depth
         \<and> (\<exists>words. length words = nat (m - (addr + 1))
             \<and> (\<forall>bs \<in> set words. length bs = unat word_size)
             \<and> outp e' = (outp e1)\<lparr>written := written (outp e1)
                  @ concat (map (\<lambda>(i, bs). fmt_0llx addr_repr_width (int i) @ '' : ''
                                   @ concat (map fmt_02x bs) @ [CHR '';'', CHR 0x0A])
                             (enumerate (nat (addr + 1)) words))\<rparr>)"
        using True "1.prems"(2,3) by (intro "1.IH" [OF True Next b1 _ _ _ run]) simp_all
      then obtain words where le: "addr + 1 \<le> m" "m \<le> depth"
        and lw: "length words = nat (m - (addr + 1))"
        and aw: "\<forall>bs \<in> set words. length bs = unat word_size"
        and oe: "outp e' = (outp e1)\<lparr>written := written (outp e1)
                  @ concat (map (\<lambda>(i, bs). fmt_0llx addr_repr_width (int i) @ '' : ''
                                   @ concat (map fmt_02x bs) @ [CHR '';'', CHR 0x0A])
                             (enumerate (nat (addr + 1)) words))\<rparr>"
        by blast
      have suc: "nat (addr + 1) = Suc (nat addr)"
        using "1.prems"(3) by simp
      show ?thesis
      proof (intro conjI exI [of _ "bs # words"])
        show "addr \<le> m" "m \<le> depth"
          using le by simp_all
        show "length (bs # words) = nat (m - addr)"
          using lw le by simp
        show "\<forall>b \<in> set (bs # words). length b = unat word_size"
          using aw len by simp
        show "outp e' = (outp e)\<lparr>written := written (outp e)
                  @ concat (map (\<lambda>(i, bs). fmt_0llx addr_repr_width (int i) @ '' : ''
                                   @ concat (map fmt_02x bs) @ [CHR '';'', CHR 0x0A])
                             (enumerate (nat addr) (bs # words)))\<rparr>"
          unfolding oe o1 suc using "1.prems"(3) by simp
      qed
    qed
  qed
qed


lemma read_aligned_zero_fails: "read_aligned s nwords 0 = Inr (k, s') \<Longrightarrow> k = - 1"
  by (auto simp: read_aligned_def Let_def split: if_splits prod.splits option.splits)

lemma refill_zero_word_size: "words_read e = 0 \<Longrightarrow> refill 0 addr e \<noteq> Next e1"
  by (auto simp: refill_def Let_def split: sum.splits prod.splits dest: read_aligned_zero_fails)

lemma generate_mif_content_zero_word_size:
  assumes "width div 8 = 0" and "1 \<le> depth"
    and "generate_mif_content in_fd out depth width u = Inr (m, e')"
  shows "m = 0 \<and> outp e' = out"
proof -
  let ?e0 = "\<lparr>rdr = \<lparr>fd = in_fd, dest = [], put_aside = [], remainder_len = 0\<rparr>,
              outp = out, words_read = 0, word_idx = 0, warnings = []\<rparr>"
  from assms obtain aw where
    run: "(case content_body 0 aw 0 ?e0 of
             Fault f \<Rightarrow> Inl f | Return n e1 \<Rightarrow> Inr (n, e1)
           | Next e1 \<Rightarrow> content_loop depth 0 aw (0 + 1) e1) = Inr (m, e')"
    by (simp add: generate_mif_content_def num_len_16 content_loop.simps [of depth 0 _ 0])
  show ?thesis
  proof (cases "refill 0 0 ?e0")
    case (Fault f)
    with run show ?thesis
      by (simp add: content_body_def then_step_def)
  next
    case (Return n e1)
    with run refill_outp(2) [OF Return] show ?thesis
      by (simp add: content_body_def then_step_def)
  next
    case (Next e1)
    with refill_zero_word_size [of ?e0 0 e1] show ?thesis
      by simp
  qed
qed

lemma emit_address_Next:
  "emit_address addr_repr_width addr e = Next e1 \<Longrightarrow>
   written (outp e1) = written (outp e) @ fmt_0llx addr_repr_width addr @ '' : ''"
  by (auto simp: emit_address_def dprintf_def split: option.splits if_splits)

text \<open>
  C7. For a depth from 1 up to the largest \<^verbatim>\<open>long long\<close>, \<open>generate_mif_content\<close>
  computes the width \<open>w\<close> once before its loop, as \<open>num_len (depth - 1) 16\<close>, the
  number of hexadecimal digits of \<open>depth - 1\<close>. When no write fails, a run that returns
  \<open>m\<close> has written exactly the records of the addresses \<open>0, ..., m - 1\<close>, in this
  order, each beginning with its address as \<^verbatim>\<open>%0*llx\<close> of width \<open>w\<close>; and the
  address field of every address in \<open>[0, depth)\<close> has exactly \<open>w\<close> characters,
  padded with zeros and never cut. Whatever the output descriptor does, a successful
  write of the address field by \<open>emit_address\<close> appends that field and
  \<^verbatim>\<open>" : "\<close>. The width is 1 for depth 1 and 2 for depth 256.
\<close>

theorem address_width_stable:
  assumes "1 \<le> depth" and "depth < 2 ^ 63" and "budget out = None"
    and "generate_mif_content in_fd out depth width u = Inr (m, e')"
  shows "\<exists>w words.
           num_len (nat ((depth - 1) mod 2 ^ 64)) 16 = Some (Inr w)
         \<and> w = length (hex_digits (nat (depth - 1)))
         \<and> 0 \<le> m \<and> m \<le> depth \<and> length words = nat m
         \<and> (\<forall>bs \<in> set words. length bs = unat (width div 8))
         \<and> written (outp e')
             = written out
               @ concat (map (\<lambda>(i, bs). fmt_0llx w (int i) @ '' : ''
                                @ concat (map fmt_02x bs) @ '';\<newline>'')
                          (enumerate 0 words))
         \<and> (\<forall>addr. 0 \<le> addr \<and> addr < depth \<longrightarrow> length (fmt_0llx w addr) = w)
         \<and> (\<forall>addr e e1. emit_address w addr e = Next e1 \<longrightarrow>
                written (outp e1) = written (outp e) @ fmt_0llx w addr @ '' : '')
         \<and> num_len (nat ((1 - 1) mod 2 ^ 64)) 16 = Some (Inr 1)
         \<and> num_len (nat ((256 - 1) mod 2 ^ 64)) 16 = Some (Inr 2)"
proof -
  let ?w = "length (hex_digits (nat (depth - 1)))"
  let ?rec = "\<lambda>(i, bs). fmt_0llx ?w (int i) @ '' : '' @ concat (map fmt_02x bs) @ '';\<newline>''"
  have d: "(depth - 1) mod 2 ^ 64 = depth - 1"
    using assms(1,2) by simp
  have nl: "num_len (nat ((depth - 1) mod 2 ^ 64)) 16 = Some (Inr ?w)"
    unfolding d by (rule num_len_16)
  have len: "length (fmt_0llx ?w addr) = ?w" if "0 \<le> addr" and "addr < depth" for addr
  proof -
    have a: "addr mod 2 ^ 64 = addr"
      using that assms(2) by simp
    have "nat addr \<le> nat (depth - 1)"
      using that by simp
    then have "length (hex_digits (nat addr)) \<le> ?w"
      by (rule hex_digits_length_mono)
    moreover have "fmt_0llx ?w addr = pad0 ?w (hex_digits (nat addr))"
      unfolding fmt_0llx_def a ..
    ultimately show ?thesis
      by (simp add: length_pad0)
  qed
  have small: "length (hex_digits 0) = 1" "length (hex_digits 255) = 2"
    by (simp_all add: hex_digits.simps)
  have run: "\<exists>words. 0 \<le> m \<and> m \<le> depth \<and> length words = nat m
         \<and> (\<forall>bs \<in> set words. length bs = unat (width div 8))
         \<and> written (outp e') = written out @ concat (map ?rec (enumerate 0 words))"
  proof (cases "unat (width div 8) = 0")
    case True
    then have "width div 8 = 0"
      by (simp add: unat_eq_0)
    from generate_mif_content_zero_word_size [OF this assms(1,4)] assms(1)
    show ?thesis
      by (intro exI [of _ "[]"]) simp
  next
    case False
    let ?e0 = "\<lparr>rdr = \<lparr>fd = in_fd,
                       dest = map (buffer_init u) [0 ..< INPUT_BUFFER_SIZE * unat (width div 8)],
                       put_aside = map (put_aside_init u) [0 ..< unat (width div 8)],
                       remainder_len = 0\<rparr>,
                outp = out, words_read = 0, word_idx = 0, warnings = []\<rparr>"
    from assms(4) have loop: "content_loop depth (width div 8) ?w 0 ?e0 = Inr (m, e')"
      unfolding generate_mif_content_def Let_def nl by simp
    have "0 \<le> m \<and> m \<le> depth
       \<and> (\<exists>words. length words = nat (m - 0)
             \<and> (\<forall>bs \<in> set words. length bs = unat (width div 8))
             \<and> outp e' = (outp ?e0)\<lparr>written := written (outp ?e0)
                  @ concat (map (\<lambda>(i, bs). fmt_0llx ?w (int i) @ '' : ''
                                   @ concat (map fmt_02x bs) @ [CHR '';'', CHR 0x0A])
                             (enumerate (nat 0) words))\<rparr>)"
      using False assms(1,3) by (intro content_loop_text [OF _ _ _ _ loop]) simp_all
    then show ?thesis
      by auto
  qed
  from run nl len small show ?thesis
    by (auto simp: num_len_16 dest: emit_address_Next)
qed


theorem address_width_stable_witness:
  "(1::int) \<le> 256 \<and> (256::int) < 2 ^ 63
   \<and> budget \<lparr>written = [], budget = None\<rparr> = None
   \<and> (\<exists>e'. generate_mif_content \<lparr>pending = [0x0a, 0x0b], sched = []\<rparr>
              \<lparr>written = [], budget = None\<rparr> 256 8
              \<lparr>buffer_init = (\<lambda>i. 0), put_aside_init = (\<lambda>i. 0)\<rparr> = Inr (2, e')
          \<and> written (outp e') = ''00 : 0a;\<newline>01 : 0b;\<newline>'')
   \<and> num_len (nat ((256 - 1) mod 2 ^ 64)) 16 = Some (Inr 2)
   \<and> length (fmt_0llx 2 5) = 2 \<and> fmt_0llx 2 5 = ''05''"
proof -
  have "\<exists>e'. generate_mif_content \<lparr>pending = [0x0a, 0x0b], sched = []\<rparr>
              \<lparr>written = [], budget = None\<rparr> 256 8
              \<lparr>buffer_init = (\<lambda>i. 0), put_aside_init = (\<lambda>i. 0)\<rparr> = Inr (2, e')
          \<and> written (outp e') = ''00 : 0a;\<newline>01 : 0b;\<newline>''"
    by (simp add: run_simps fmt_02x_two)
  then obtain e' where
    run: "generate_mif_content \<lparr>pending = [0x0a, 0x0b], sched = []\<rparr>
              \<lparr>written = [], budget = None\<rparr> 256 8
              \<lparr>buffer_init = (\<lambda>i. 0), put_aside_init = (\<lambda>i. 0)\<rparr> = Inr (2, e')"
    and wr: "written (outp e') = ''00 : 0a;\<newline>01 : 0b;\<newline>''"
    by blast
  have "\<exists>w. num_len (nat ((256 - 1) mod 2 ^ 64)) 16 = Some (Inr w)
          \<and> w = length (hex_digits (nat (256 - 1)))
          \<and> (\<forall>addr. 0 \<le> addr \<and> addr < 256 \<longrightarrow> length (fmt_0llx w addr) = w)"
    using address_width_stable [OF _ _ _ run] by auto
  then obtain w where nl: "num_len (nat ((256 - 1) mod 2 ^ 64)) 16 = Some (Inr w)"
    and w: "w = length (hex_digits (nat (256 - 1)))"
    and all: "\<forall>addr. 0 \<le> addr \<and> addr < 256 \<longrightarrow> length (fmt_0llx w addr) = w"
    by blast
  have w2: "w = 2"
    unfolding w by (simp add: hex_digits.simps)
  from all have "length (fmt_0llx w 5) = w"
    by simp
  with nl have "num_len (nat ((256 - 1) mod 2 ^ 64)) 16 = Some (Inr 2)"
    and "length (fmt_0llx 2 5) = 2"
    unfolding w2 by simp_all
  moreover have "fmt_0llx 2 5 = ''05''"
    by (simp add: fmt_0llx_def pad0_def hex_digits.simps hex_char_def)
  ultimately show ?thesis
    using run wr by auto
qed

subsection \<open>The depth\<close>

lemmas gen_simps =
  generate_mif_def argument_validation_def wrap_ll_def c_div_def file_size_def
  generate_mif_header_def
  header_text_def fmt_lld_def dec_digits.simps

text \<open>
  C3. For a regular file of ten bytes, width 16 and no depth given, \<open>generate_mif\<close>
  takes the size in bytes as the depth: the header says \<^verbatim>\<open>DEPTH = 10\<close>, not
  \<open>10 * 8 div 16 = 5\<close>, only five records can be written, and the run ends in the
  program's own warning \<^verbatim>\<open>unexpected EOF\<close>. Given the same depth 10 explicitly, the
  sibling branch converts words to bytes and warns that 20 bytes were requested of a file
  of 10; given the depth 5 the run is complete.
\<close>

theorem default_depth_counts_bytes:
  "generate_mif \<lparr>stream = \<lparr>pending = [0, 1, 2, 3, 4, 5, 6, 7, 8, 9], sched = []\<rparr>, stat = Regular 10\<rparr>
       \<lparr>written = [], budget = None\<rparr> (- 1) 16 u
     = Inr \<lparr>ret = 5, in_after = \<lparr>pending = [], sched = []\<rparr>,
            out_after =
              \<lparr>written =
                 ''DEPTH = 10;\<newline>WIDTH = 16;\<newline>ADDRESS_RADIX = HEX;\<newline>DATA_RADIX = HEX;\<newline>CONTENT\<newline>BEGIN\<newline>0 : 0100;\<newline>1 : 0302;\<newline>2 : 0504;\<newline>3 : 0706;\<newline>4 : 0908;\<newline>END;\<newline>'',
               budget = None\<rparr>,
            stderr = [''unexpected EOF'']\<rparr>
   \<and> generate_mif \<lparr>stream = \<lparr>pending = [0, 1, 2, 3, 4, 5, 6, 7, 8, 9], sched = []\<rparr>, stat = Regular 10\<rparr>
       \<lparr>written = [], budget = None\<rparr> 10 16 u
     = Inr \<lparr>ret = 5, in_after = \<lparr>pending = [], sched = []\<rparr>,
            out_after =
              \<lparr>written =
                 ''DEPTH = 10;\<newline>WIDTH = 16;\<newline>ADDRESS_RADIX = HEX;\<newline>DATA_RADIX = HEX;\<newline>CONTENT\<newline>BEGIN\<newline>0 : 0100;\<newline>1 : 0302;\<newline>2 : 0504;\<newline>3 : 0706;\<newline>4 : 0908;\<newline>END;\<newline>'',
               budget = None\<rparr>,
            stderr = [''20 bytes were requested, but the input file only contains 10'',
                      ''unexpected EOF'']\<rparr>
   \<and> generate_mif \<lparr>stream = \<lparr>pending = [0, 1, 2, 3, 4, 5, 6, 7, 8, 9], sched = []\<rparr>, stat = Regular 10\<rparr>
       \<lparr>written = [], budget = None\<rparr> 5 16 u
     = Inr \<lparr>ret = 5, in_after = \<lparr>pending = [], sched = []\<rparr>,
            out_after =
              \<lparr>written =
                 ''DEPTH = 5;\<newline>WIDTH = 16;\<newline>ADDRESS_RADIX = HEX;\<newline>DATA_RADIX = HEX;\<newline>CONTENT\<newline>BEGIN\<newline>0 : 0100;\<newline>1 : 0302;\<newline>2 : 0504;\<newline>3 : 0706;\<newline>4 : 0908;\<newline>END;\<newline>'',
               budget = None\<rparr>,
            stderr = []\<rparr>"
  by (simp add: gen_simps run_simps fmt_02x_two)

text \<open>
  In general: with no depth given, a regular file of \<open>n\<close> bytes is converted as if the
  depth \<open>n\<close> had been given, whatever the width.
\<close>

lemma default_depth_is_file_size:
  "depth < 0 \<Longrightarrow> stat f = Regular n \<Longrightarrow>
   generate_mif f out depth width u = generate_mif (f\<lparr>stat := NotRegular\<rparr>) out (int n) width u"
  by (simp add: generate_mif_def argument_validation_def file_size_def Let_def
           split: prod.split bool.split)

text \<open>
  With no depth given and an input that is not a regular file, \<open>generate_mif\<close> returns
  \<open>-1\<close> and has written nothing.
\<close>

lemma depth_required_before_output:
  "depth < 0 \<Longrightarrow> stat g = NotRegular \<Longrightarrow>
   generate_mif g out depth width u
     = Inr \<lparr>ret = - 1, in_after = stream g, out_after = out,
            stderr = [''memory depth has to be given when reading from stdin'']\<rparr>"
  by (simp add: generate_mif_def argument_validation_def file_size_def)

subsection \<open>The width\<close>

lemmas main_simps =
  main_def example_world_def str_to_ll_def str_to_byte_def strtol_def isspace_def isdigit_def
  digits_value_def finish_up_def safe_close_def sys_close_def

lemma word_size_small: "unat (width :: byte) < 8 \<Longrightarrow> width div 8 = 0"
  by (simp add: word_eq_iff_unsigned [where ?'a = nat] unat_div)

lemma word_size_large: "8 \<le> unat (width :: byte) \<Longrightarrow> unat (width div 8) \<noteq> 0"
  by (simp add: unat_div)

lemma read_aligned_zero_word_size:
  assumes "fst (sys_read (fd s) 0) \<noteq> None" and "remainder_len s = 0"
  shows "read_aligned s nwords 0 = Inl DivByZero"
proof -
  obtain chunk f' where r: "sys_read (fd s) 0 = (Some chunk, f')"
    using assms(1) by (cases "sys_read (fd s) 0") auto
  then have "chunk = []"
    using sys_read_length [OF r] by simp
  with r assms(2) show ?thesis
    by (simp add: read_aligned_def)
qed

lemma read_aligned_no_div:
  "unat word_size \<noteq> 0 \<Longrightarrow> read_aligned s nwords word_size \<noteq> Inl DivByZero"
  by (auto simp: read_aligned_def Let_def split: prod.splits option.splits)

lemma emit_bytes_no_div: "emit_bytes addr ws n e \<noteq> Fault DivByZero"
  by (induction n arbitrary: e) (auto simp: Let_def split: prod.splits)

lemma content_body_no_div:
  "unat word_size \<noteq> 0 \<Longrightarrow> content_body word_size addr_repr_width addr e \<noteq> Fault DivByZero"
  using read_aligned_no_div [of word_size "rdr e" INPUT_BUFFER_SIZE]
  by (auto simp: content_body_def refill_def eof_check_def emit_address_def then_step_def
                 emit_bytes_no_div Let_def
           split: step.splits sum.splits prod.splits if_splits)

lemma content_loop_no_div:
  "unat word_size \<noteq> 0 \<Longrightarrow>
   content_loop depth word_size addr_repr_width addr e \<noteq> Inl DivByZero"
proof (induction depth word_size addr_repr_width addr e rule: content_loop.induct)
  case (1 depth word_size addr_repr_width addr e)
  show ?case
  proof (cases "addr < depth")
    case False
    then show ?thesis
      by (subst content_loop.simps) simp
  next
    case True
    show ?thesis
    proof (cases "content_body word_size addr_repr_width addr e")
      case (Fault f)
      with content_body_no_div [OF "1.prems", of addr_repr_width addr e] have "f \<noteq> DivByZero"
        by auto
      with True Fault show ?thesis
        by (subst content_loop.simps) simp
    next
      case (Return n e')
      with True show ?thesis
        by (subst content_loop.simps) simp
    next
      case (Next e')
      with True "1.IH" [OF True Next "1.prems"] show ?thesis
        by (subst content_loop.simps) simp
    qed
  qed
qed

text \<open>
  C9, as stated, fails: with width 1 and depth 0 the loop is never entered, nothing is
  read, and there is no division.
\<close>

theorem small_width_counterexample:
  "generate_mif_content \<lparr>pending = [1], sched = []\<rparr> \<lparr>written = [], budget = None\<rparr> 0 1
     \<lparr>buffer_init = (\<lambda>i. 0), put_aside_init = (\<lambda>i. 0)\<rparr> \<noteq> Inl DivByZero"
  by (simp add: run_simps)

text \<open>
  The run depends on the width only through \<open>width div 8\<close>.
\<close>

lemma truncated_width_word_size:
  "(of_nat (unat w - unat w mod 8) :: byte) div 8 = w div 8"
proof -
  have "unat w - unat w mod 8 \<le> unat w"
    by simp
  then have "unat (of_nat (unat w - unat w mod 8) :: byte) = unat w - unat w mod 8"
    by (rule le_unat_uoi)
  then have "unat ((of_nat (unat w - unat w mod 8) :: byte) div 8) = unat (w div 8)"
    by (simp add: unat_div minus_mod_eq_mult_div)
  then show ?thesis
    by (simp only: word_unat_eq_iff)
qed

lemma generate_mif_content_word_size:
  "width div 8 = width' div 8 \<Longrightarrow>
   generate_mif_content in_fd out depth width u = generate_mif_content in_fd out depth width' u"
  by (simp add: generate_mif_content_def)

text \<open>
  C9, amended. \<open>generate_mif_content\<close> takes \<open>width div 8\<close> as the word size, and
  nothing before it rejects a width: \<open>str_to_byte\<close> accepts \<^verbatim>\<open>4\<close>, and
  \<open>main\<close> with \<^verbatim>\<open>-w 4 -d 1\<close> runs into the division by zero. The local buffers
  have \<open>INPUT_BUFFER_SIZE * (width div 8)\<close> and \<open>width div 8\<close> bytes, none for a
  width below 8. For a width below 8, whenever the depth is at least 1 and the first
  \<^verbatim>\<open>read\<close> does not fail, the function divides by zero in \<open>read_aligned\<close>; with a
  depth of 0 or less it returns the depth, reads nothing and writes nothing. For a width
  of at least 8 it never divides by zero. A width that is not a multiple of 8 gives the
  very run, warnings included, of the next lower multiple of 8.
\<close>

theorem small_width_division_by_zero:
  "(unat width < 8 \<and> 1 \<le> depth \<and> fst (sys_read in_fd 0) \<noteq> None \<longrightarrow>
      generate_mif_content in_fd out depth width u = Inl DivByZero)
   \<and> (depth0 \<le> 0 \<longrightarrow>
        (\<exists>e. generate_mif_content in0 out0 depth0 width0 u0 = Inr (depth0, e)
            \<and> outp e = out0 \<and> fd (rdr e) = in0
            \<and> length (dest (rdr e)) = INPUT_BUFFER_SIZE * unat (width0 div 8)
            \<and> length (put_aside (rdr e)) = unat (width0 div 8)))
   \<and> (8 \<le> unat width8 \<longrightarrow>
        generate_mif_content in8 out8 depth8 width8 u8 \<noteq> Inl DivByZero)
   \<and> generate_mif_content inw outw depthw w uw
       = generate_mif_content inw outw depthw (of_nat (unat w - unat w mod 8)) uw
   \<and> str_to_byte ''4'' = Inr 4
   \<and> main [OptWidth ''4'', OptDepth ''1''] [''in.bin''] (example_world [1, 2]) um = Inl DivByZero"
proof (intro conjI impI)
  assume a: "unat width < 8 \<and> 1 \<le> depth \<and> fst (sys_read in_fd 0) \<noteq> None"
  then have ws: "width div 8 = 0"
    by (simp add: word_size_small)
  have "read_aligned \<lparr>fd = in_fd, dest = [], put_aside = [], remainder_len = 0\<rparr>
          INPUT_BUFFER_SIZE 0 = Inl DivByZero"
    using a by (intro read_aligned_zero_word_size) simp_all
  with a show "generate_mif_content in_fd out depth width u = Inl DivByZero"
    by (simp add: generate_mif_content_def ws num_len_16 content_loop.simps [of depth 0 _ 0]
          content_body_def refill_def then_step_def)
next
  assume "depth0 \<le> 0"
  then show "\<exists>e. generate_mif_content in0 out0 depth0 width0 u0 = Inr (depth0, e)
            \<and> outp e = out0 \<and> fd (rdr e) = in0
            \<and> length (dest (rdr e)) = INPUT_BUFFER_SIZE * unat (width0 div 8)
            \<and> length (put_aside (rdr e)) = unat (width0 div 8)"
    by (simp add: generate_mif_content_def Let_def num_len_16 content_loop.simps [of depth0 _ _ 0])
next
  assume "8 \<le> unat width8"
  then have "unat (width8 div 8) \<noteq> 0"
    by (rule word_size_large)
  then show "generate_mif_content in8 out8 depth8 width8 u8 \<noteq> Inl DivByZero"
    using content_loop_no_div [of "width8 div 8"]
    by (simp add: generate_mif_content_def Let_def num_len_16)
next
  show "generate_mif_content inw outw depthw w uw
       = generate_mif_content inw outw depthw (of_nat (unat w - unat w mod 8)) uw"
    by (rule generate_mif_content_word_size [OF truncated_width_word_size [symmetric]])
next
  show "str_to_byte ''4'' = Inr 4"
    by (simp add: main_simps)
next
  show "main [OptWidth ''4'', OptDepth ''1''] [''in.bin''] (example_world [1, 2]) um = Inl DivByZero"
    by (simp add: main_simps gen_simps run_simps)
qed

theorem small_width_division_by_zero_witness:
  "unat (4 :: byte) < 8 \<and> (1 :: int) \<le> 1
   \<and> fst (sys_read \<lparr>pending = [1, 2], sched = []\<rparr> 0) \<noteq> None
   \<and> generate_mif_content \<lparr>pending = [1, 2], sched = []\<rparr> \<lparr>written = [], budget = None\<rparr> 1 4
        \<lparr>buffer_init = (\<lambda>i. 0), put_aside_init = (\<lambda>i. 0)\<rparr> = Inl DivByZero
   \<and> (0 :: int) \<le> 0
   \<and> (\<exists>e. generate_mif_content \<lparr>pending = [1, 2], sched = []\<rparr> \<lparr>written = [], budget = None\<rparr> 0 4
             \<lparr>buffer_init = (\<lambda>i. 0), put_aside_init = (\<lambda>i. 0)\<rparr> = Inr (0, e)
          \<and> outp e = \<lparr>written = [], budget = None\<rparr>
          \<and> fd (rdr e) = \<lparr>pending = [1, 2], sched = []\<rparr>
          \<and> length (dest (rdr e)) = 0 \<and> length (put_aside (rdr e)) = 0)
   \<and> 8 \<le> unat (12 :: byte)
   \<and> generate_mif_content \<lparr>pending = [1, 2], sched = []\<rparr> \<lparr>written = [], budget = None\<rparr> 1 12
        \<lparr>buffer_init = (\<lambda>i. 0), put_aside_init = (\<lambda>i. 0)\<rparr> \<noteq> Inl DivByZero
   \<and> generate_mif_content \<lparr>pending = [1, 2], sched = []\<rparr> \<lparr>written = [], budget = None\<rparr> 1 12
        \<lparr>buffer_init = (\<lambda>i. 0), put_aside_init = (\<lambda>i. 0)\<rparr>
       = generate_mif_content \<lparr>pending = [1, 2], sched = []\<rparr> \<lparr>written = [], budget = None\<rparr> 1 8
        \<lparr>buffer_init = (\<lambda>i. 0), put_aside_init = (\<lambda>i. 0)\<rparr>"
  using small_width_division_by_zero [where width = 4 and depth = 1
      and in_fd = "\<lparr>pending = [1, 2], sched = []\<rparr>"
      and out = "\<lparr>written = [], budget = None\<rparr>"
      and u = "\<lparr>buffer_init = (\<lambda>i. 0), put_aside_init = (\<lambda>i. 0)\<rparr>"
      and ?depth0.0 = 0 and ?in0.0 = "\<lparr>pending = [1, 2], sched = []\<rparr>"
      and ?out0.0 = "\<lparr>written = [], budget = None\<rparr>" and ?width0.0 = 4
      and ?u0.0 = "\<lparr>buffer_init = (\<lambda>i. 0), put_aside_init = (\<lambda>i. 0)\<rparr>"
      and ?width8.0 = 12 and ?in8.0 = "\<lparr>pending = [1, 2], sched = []\<rparr>"
      and ?out8.0 = "\<lparr>written = [], budget = None\<rparr>" and ?depth8.0 = 1
      and ?u8.0 = "\<lparr>buffer_init = (\<lambda>i. 0), put_aside_init = (\<lambda>i. 0)\<rparr>"
      and inw = "\<lparr>pending = [1, 2], sched = []\<rparr>"
      and outw = "\<lparr>written = [], budget = None\<rparr>" and depthw = 1 and w = 12
      and uw = "\<lparr>buffer_init = (\<lambda>i. 0), put_aside_init = (\<lambda>i. 0)\<rparr>"
      and um = "\<lparr>buffer_init = (\<lambda>i. 0), put_aside_init = (\<lambda>i. 0)\<rparr>"]
  by (simp add: run_simps fmt_02x_two)

subsection \<open>The exit status\<close>

text \<open>
  C6. \<^verbatim>\<open>bin2mif -d 4 -w 8 in.bin\<close> on a file of three bytes stops early after three
  records and ends with status 0, the status of the complete run on a file of four bytes;
  it is not \<open>GENERATOR_EARLY_STOP\<close>.
\<close>

theorem early_stop_exits_with_success:
  "main [OptDepth ''4'', OptWidth ''8''] [''in.bin''] (example_world [0, 1, 2]) u
     = Inr \<lparr>status = EXIT_SUCCESS,
            final_out = Some
              \<lparr>written =
                 ''DEPTH = 4;\<newline>WIDTH = 8;\<newline>ADDRESS_RADIX = HEX;\<newline>DATA_RADIX = HEX;\<newline>CONTENT\<newline>BEGIN\<newline>0 : 00;\<newline>1 : 01;\<newline>2 : 02;\<newline>END;\<newline>'',
               budget = None\<rparr>,
            messages = [''4 bytes were requested, but the input file only contains 3'',
                        ''unexpected EOF''],
            closed = [3, 1]\<rparr>
   \<and> main [OptDepth ''4'', OptWidth ''8''] [''in.bin''] (example_world [0, 1, 2, 3]) u
     = Inr \<lparr>status = EXIT_SUCCESS,
            final_out = Some
              \<lparr>written =
                 ''DEPTH = 4;\<newline>WIDTH = 8;\<newline>ADDRESS_RADIX = HEX;\<newline>DATA_RADIX = HEX;\<newline>CONTENT\<newline>BEGIN\<newline>0 : 00;\<newline>1 : 01;\<newline>2 : 02;\<newline>3 : 03;\<newline>END;\<newline>'',
               budget = None\<rparr>,
            messages = [],
            closed = [3]\<rparr>
   \<and> EXIT_SUCCESS \<noteq> GENERATOR_EARLY_STOP"
  by (simp add: main_simps gen_simps run_simps fmt_02x_two)

lemma str_to_byte_status: "str_to_byte a = Inl st \<Longrightarrow> st \<in> {1, 2}"
  by (auto simp: str_to_byte_def split: prod.splits if_splits)

lemma str_to_ll_status: "str_to_ll a = Inl st \<Longrightarrow> st \<in> {1, 2}"
  by (auto simp: str_to_ll_def split: prod.splits if_splits)

lemma parse_options_status: "parse_options opts c = Inl st \<Longrightarrow> st \<in> {0, 1, 2, 3}"
proof (induction opts c rule: parse_options.induct)
  case (2 optarg rest c)
  then show ?case
    using str_to_byte_status [of optarg] by (auto split: sum.splits)
next
  case (3 optarg rest c)
  then show ?case
    using str_to_ll_status [of optarg] by (auto split: sum.splits)
qed auto

lemma finish_up_status:
  "finish_up words_written depth in_fd out_fd out_named w = ((st, a, b), w')
     \<Longrightarrow> st \<in> {0, 5, 6}"
  by (auto simp: finish_up_def Let_def split: prod.splits if_splits)

text \<open>No run of \<open>main\<close> ends with status 7.\<close>

lemma main_never_reports_early_stop:
  assumes "main opts args w u = Inr r"
  shows "status r \<in> {0, 1, 2, 3, 4, 5, 6}"
  using assms
  by (auto simp: main_def Let_def
           split: sum.splits if_splits option.splits prod.splits
           dest!: parse_options_status finish_up_status)

text \<open>
  With no depth given and standard input not a regular file, \<open>generate_mif\<close> returns
  \<open>-1\<close>, which equals the depth \<open>-1\<close> that \<open>main\<close> still holds: the comparison
  \<^verbatim>\<open>words_written != depth\<close> fails and the status is 0.
\<close>

lemma depth_required_exits_with_success:
  "main [] [] (example_world bytes) u
     = Inr \<lparr>status = EXIT_SUCCESS, final_out = Some \<lparr>written = [], budget = None\<rparr>,
            messages = [''memory depth has to be given when reading from stdin''],
            closed = [0]\<rparr>"
  by (simp add: main_simps gen_simps)

text \<open>
  A failed \<^verbatim>\<open>close\<close> after a complete run is warned about and gives status 5.
\<close>

lemma close_failure_is_warned:
  "main [OptDepth ''4''] [''in.bin'']
     ((example_world [0, 1, 2, 3])\<lparr>closing := \<lparr>close_ok = (\<lambda>d. False), close_calls = []\<rparr>\<rparr>) u
     = Inr \<lparr>status = FILE_CLOSE_FAILURE,
            final_out = Some
              \<lparr>written =
                 ''DEPTH = 4;\<newline>WIDTH = 8;\<newline>ADDRESS_RADIX = HEX;\<newline>DATA_RADIX = HEX;\<newline>CONTENT\<newline>BEGIN\<newline>0 : 00;\<newline>1 : 01;\<newline>2 : 02;\<newline>3 : 03;\<newline>END;\<newline>'',
               budget = None\<rparr>,
            messages = [''closing file in.bin''],
            closed = [3]\<rparr>"
  by (simp add: main_simps gen_simps run_simps fmt_02x_two)

subsection \<open>Closing descriptors\<close>

lemma finish_up_closes_once:
  "in_fd \<noteq> out_fd \<Longrightarrow> in_fd \<noteq> - 1 \<Longrightarrow> out_fd \<noteq> - 1 \<Longrightarrow> close_calls w = [] \<Longrightarrow>
   finish_up words_written depth in_fd out_fd out_named w = (st, w') \<Longrightarrow>
   distinct (close_calls w')"
  by (auto simp: finish_up_def safe_close_def sys_close_def Let_def split: if_splits prod.splits)


lemma main_closes_once:
  assumes "main opts args wld u = Inr r" and "close_calls (closing wld) = []"
  shows "distinct (closed r)"
  using assms
  by (auto simp: main_def Let_def safe_close_def sys_close_def
           split: sum.splits if_splits option.splits prod.splits
           dest!: finish_up_closes_once [rotated 4])

text \<open>
  C10. After \<open>safe_close\<close> on a pointer that is not NULL the descriptor behind it is
  \<open>-1\<close>, and a further call returns true and calls \<^verbatim>\<open>close\<close> no more. In
  \<open>main\<close>, when the number of words written differs from the depth, the input and the
  output descriptor are each closed exactly once: the later calls of \<open>safe_close\<close> in
  the clean-up close nothing. No run of \<open>main\<close> closes a descriptor twice.
\<close>

theorem safe_close_idempotent:
  "(safe_close (Some d) w = (ok, p, w') \<longrightarrow>
      p = Some (- 1) \<and> safe_close p w' = (True, p, w'))
   \<and> (words_written \<noteq> depth \<and> in_fd \<noteq> - 1 \<and> out_fd \<noteq> - 1 \<longrightarrow>
        close_calls (snd (finish_up words_written depth in_fd out_fd out_named w0))
          = close_calls w0 @ [in_fd, out_fd])
   \<and> (main opts args wld u = Inr r \<and> close_calls (closing wld) = [] \<longrightarrow> distinct (closed r))"
proof (intro conjI)
  show "safe_close (Some d) w = (ok, p, w') \<longrightarrow>
      p = Some (- 1) \<and> safe_close p w' = (True, p, w')"
    by (auto simp: safe_close_def sys_close_def split: if_splits prod.splits)
  show "words_written \<noteq> depth \<and> in_fd \<noteq> - 1 \<and> out_fd \<noteq> - 1 \<longrightarrow>
        close_calls (snd (finish_up words_written depth in_fd out_fd out_named w0))
          = close_calls w0 @ [in_fd, out_fd]"
    by (auto simp: safe_close_def sys_close_def finish_up_def split: if_splits prod.splits)
  show "main opts args wld u = Inr r \<and> close_calls (closing wld) = [] \<longrightarrow> distinct (closed r)"
    by (auto dest: main_closes_once)
qed

theorem safe_close_idempotent_witness:
  "safe_close (Some 3) \<lparr>close_ok = (\<lambda>d. False), close_calls = []\<rparr>
     = (False, Some (- 1), \<lparr>close_ok = (\<lambda>d. False), close_calls = [3]\<rparr>)
   \<and> safe_close (Some (- 1)) \<lparr>close_ok = (\<lambda>d. False), close_calls = [3]\<rparr>
     = (True, Some (- 1), \<lparr>close_ok = (\<lambda>d. False), close_calls = [3]\<rparr>)
   \<and> (3::int) \<noteq> 4 \<and> (3::int) \<noteq> - 1 \<and> (4::int) \<noteq> - 1
   \<and> close_calls (snd (finish_up 3 4 3 4 True \<lparr>close_ok = (\<lambda>d. False), close_calls = []\<rparr>))
       = [3, 4]
   \<and> main [OptDepth ''4'', OptWidth ''8''] [''in.bin''] (example_world [0, 1, 2])
         \<lparr>buffer_init = (\<lambda>i. 0), put_aside_init = (\<lambda>i. 0)\<rparr>
       = Inr \<lparr>status = 0,
            final_out = Some
              \<lparr>written =
                 ''DEPTH = 4;\<newline>WIDTH = 8;\<newline>ADDRESS_RADIX = HEX;\<newline>DATA_RADIX = HEX;\<newline>CONTENT\<newline>BEGIN\<newline>0 : 00;\<newline>1 : 01;\<newline>2 : 02;\<newline>END;\<newline>'',
               budget = None\<rparr>,
            messages = [''4 bytes were requested, but the input file only contains 3'',
                        ''unexpected EOF''],
            closed = [3, 1]\<rparr>
   \<and> close_calls (closing (example_world [0, 1, 2])) = []
   \<and> distinct [3, 1 :: int]"
  using safe_close_idempotent [where d = 3
      and w = "\<lparr>close_ok = (\<lambda>d. False), close_calls = []\<rparr>" and ok = False
      and p = "Some (- 1)" and w' = "\<lparr>close_ok = (\<lambda>d. False), close_calls = [3]\<rparr>"
      and words_written = 3 and depth = 4 and in_fd = 3 and out_fd = 4 and out_named = True
      and ?w0.0 = "\<lparr>close_ok = (\<lambda>d. False), close_calls = []\<rparr>"
      and opts = "[OptDepth ''4'', OptWidth ''8'']" and args = "[''in.bin'']"
      and wld = "example_world [0, 1, 2]"
      and u = "\<lparr>buffer_init = (\<lambda>i. 0), put_aside_init = (\<lambda>i. 0)\<rparr>"
      and r = "\<lparr>status = 0,
            final_out = Some
              \<lparr>written =
                 ''DEPTH = 4;\<newline>WIDTH = 8;\<newline>ADDRESS_RADIX = HEX;\<newline>DATA_RADIX = HEX;\<newline>CONTENT\<newline>BEGIN\<newline>0 : 00;\<newline>1 : 01;\<newline>2 : 02;\<newline>END;\<newline>'',
               budget = None\<rparr>,
            messages = [''4 bytes were requested, but the input file only contains 3'',
                        ''unexpected EOF''],
            closed = [3, 1]\<rparr>"]
  by (simp add: main_simps gen_simps run_simps fmt_02x_two)

end
